theory Spec2Isabelle
  imports Main "HOL-Library.Char_ord" "HOL-Library.List_Lexorder" "HOL-Library.Sublist"
    "HOL-Library.Multiset"
begin

section \<open>Python values that the scripts handle\<close>

text \<open>
  Every script of the tutorial works on parsed JSON. A parsed body is a Python value:
  \<open>None\<close>, a bool, a number, a \<open>str\<close>, a list or a dict. Numbers are integers here
  (no claim reads a float). A \<open>char\<close> stands for one code point of a Python \<open>str\<close>.
  A dict is an association list in which the first binding of a key is the one that
  counts; its keys, in order, are the first components without the repetitions.
\<close>

datatype json =
    JNull
  | JBool bool
  | JNum int
  | JStr string
  | JArr "json list"
  | JObj "(string \<times> json) list"

text \<open>The exceptions that the modelled statements can raise.\<close>

datatype py_error =
    HTTPError        \<comment> \<open>any exception of \<open>requests.get\<close>, \<open>raise_for_status\<close> or \<open>.json()\<close>\<close>
  | AttributeError   \<comment> \<open>\<open>x.get(...)\<close> on a value that is not a dict\<close>
  | KeyError         \<comment> \<open>\<open>d[k]\<close> with \<open>k\<close> missing\<close>
  | TypeError        \<comment> \<open>subscript, iteration, arithmetic or hashing of the wrong type\<close>
  | ValueError       \<comment> \<open>a text that a parser rejects\<close>
  | Unsupported      \<comment> \<open>not an exception: a cell type on which the model does not follow pandas\<close>

text \<open>Truth value of a Python object, as \<open>if x:\<close> and \<open>not x\<close> test it.\<close>

fun truthy :: "json \<Rightarrow> bool" where
  "truthy JNull = False"
| "truthy (JBool b) = b"
| "truthy (JNum n) = (n \<noteq> 0)"
| "truthy (JStr s) = (s \<noteq> [])"
| "truthy (JArr xs) = (xs \<noteq> [])"
| "truthy (JObj kvs) = (kvs \<noteq> [])"

text \<open>\<open>d.get(k, default)\<close>: only a dict has the method.\<close>

fun dget :: "json \<Rightarrow> string \<Rightarrow> json \<Rightarrow> py_error + json" where
  "dget (JObj kvs) k dflt = Inr (case map_of kvs k of Some v \<Rightarrow> v | None \<Rightarrow> dflt)"
| "dget _ k dflt = Inl AttributeError"

text \<open>\<open>d[k]\<close> with a string key.\<close>

fun jsub :: "json \<Rightarrow> string \<Rightarrow> py_error + json" where
  "jsub (JObj kvs) k = (case map_of kvs k of Some v \<Rightarrow> Inr v | None \<Rightarrow> Inl KeyError)"
| "jsub _ k = Inl TypeError"

text \<open>Sequencing of statements that may raise.\<close>

fun ebind :: "py_error + 'a \<Rightarrow> ('a \<Rightarrow> py_error + 'b) \<Rightarrow> py_error + 'b" where
  "ebind (Inl e) f = Inl e"
| "ebind (Inr x) f = f x"

text \<open>
  The chain \<open>x.get("links", {}).get(name, {}).get("href")\<close> of the resolvers, and
  the chain \<open>x["links"][name]["href"]\<close>.
\<close>

definition link_href :: "json \<Rightarrow> string \<Rightarrow> py_error + json" where
  "link_href x name =
     ebind (dget x ''links'' (JObj [])) (\<lambda>l.
     ebind (dget l name (JObj [])) (\<lambda>v.
     dget v ''href'' JNull))"

definition link_href_strict :: "json \<Rightarrow> string \<Rightarrow> py_error + json" where
  "link_href_strict x name =
     ebind (jsub x ''links'') (\<lambda>l.
     ebind (jsub l name) (\<lambda>v.
     jsub v ''href''))"

text \<open>What a \<open>for\<close> loop, \<open>list.extend\<close> and \<open>len\<close> see of a value.\<close>

fun dict_keys :: "(string \<times> json) list \<Rightarrow> string list" where
  "dict_keys [] = []"
| "dict_keys ((k, v) # kvs) = k # filter (\<lambda>x. x \<noteq> k) (dict_keys kvs)"

fun py_iter :: "json \<Rightarrow> py_error + json list" where
  "py_iter (JArr xs) = Inr xs"
| "py_iter (JObj kvs) = Inr (map JStr (dict_keys kvs))"
| "py_iter (JStr s) = Inr (map (\<lambda>c. JStr [c]) s)"
| "py_iter _ = Inl TypeError"

section \<open>The network and the clock\<close>

text \<open>
  A URL is the list of the pieces the code joins: literal text and formatted values
  (\<open>requests\<close> and f-strings render a value with \<open>str()\<close>). The network is a
  parameter: the outcome of a GET (with \<open>raise_for_status\<close> and \<open>.json()\<close>) may depend
  on how many GETs were made before, on the URL and on the query parameters. The world
  counts the GETs made and records each \<open>time.sleep\<close>.
\<close>

datatype url_part = Text string | Fmt json

type_synonym url = "url_part list"
type_synonym params = "(string \<times> json) list"
type_synonym network = "nat \<Rightarrow> url \<Rightarrow> params \<Rightarrow> py_error + json"

text \<open>
  \<open>fmt\<close> is a value placed in a URL: a \<open>str\<close> is its own text. \<open>url_join\<close> merges
  neighbouring texts, so that a URL built from strings only is a single \<open>Text\<close>.
\<close>

fun fmt :: "json \<Rightarrow> url_part" where
  "fmt (JStr s) = Text s"
| "fmt v = Fmt v"

fun url_join :: "url_part list \<Rightarrow> url" where
  "url_join [] = []"
| "url_join (Text a # ps) =
     (case url_join ps of Text b # r \<Rightarrow> Text (a @ b) # r | r \<Rightarrow> Text a # r)"
| "url_join (p # ps) = p # url_join ps"

record world =
  requests :: nat
  sleeps :: "int list"

definition world0 :: world where
  "world0 = \<lparr>requests = 0, sleeps = []\<rparr>"

definition requests_get :: "network \<Rightarrow> url \<Rightarrow> params \<Rightarrow> world \<Rightarrow> (py_error + json) \<times> world" where
  "requests_get net u ps w = (net (requests w) u ps, w\<lparr>requests := Suc (requests w)\<rparr>)"

definition time_sleep :: "int \<Rightarrow> world \<Rightarrow> world" where
  "time_sleep d w = w\<lparr>sleeps := sleeps w @ [d]\<rparr>"

definition ROOT_URL :: string where
  "ROOT_URL = ''https://api.beta.ons.gov.uk/v1/''"

section \<open>04\_batch\_download.py: get\_json\<close>

text \<open>
  \<^verbatim>\<open>
  def get_json(url, params=None, retries=3):
      for attempt in range(retries):
          try:
              r = requests.get(url, params=params, timeout=30)
              r.raise_for_status()
              return r.json()
          except Exception as e:
              if attempt < retries - 1:
                  time.sleep(2 ** attempt)
              else:
                  print(...)
                  return None
  \<close>
  The loop variable is the argument \<open>attempt\<close>; leaving the loop without a return gives
  \<open>None\<close>. Every exception of the \<open>try\<close> body is a branch here, so the function has
  no error result.
\<close>

function get_json_loop :: "network \<Rightarrow> url \<Rightarrow> params \<Rightarrow> int \<Rightarrow> int \<Rightarrow> world \<Rightarrow> json \<times> world" where
  "get_json_loop net u ps retries attempt w =
     (if attempt < retries then
        (let r = requests_get net u ps w in
         case fst r of
           Inr j \<Rightarrow> (j, snd r)
         | Inl e \<Rightarrow>
             if attempt < retries - 1
             then get_json_loop net u ps retries (attempt + 1) (time_sleep (2 ^ nat attempt) (snd r))
             else (JNull, snd r))
      else (JNull, w))"
  by pat_completeness auto
termination
  by (relation "measure (\<lambda>(net, u, ps, retries, attempt, w). nat (retries - attempt))") auto

declare get_json_loop.simps [simp del]

definition get_json :: "network \<Rightarrow> url \<Rightarrow> params \<Rightarrow> int \<Rightarrow> world \<Rightarrow> json \<times> world" where
  "get_json net u ps retries w = get_json_loop net u ps retries 0 w"

text \<open>Two networks for the examples: one that never answers, one that answers the third GET.\<close>

definition dead_net :: network where
  "dead_net n u ps = Inl HTTPError"

definition flaky_net :: "json \<Rightarrow> network" where
  "flaky_net j n u ps = (if n < 2 then Inl HTTPError else Inr j)"

section \<open>04\_batch\_download.py: label\_to\_filename\<close>

text \<open>
  \<^verbatim>\<open>
  def label_to_filename(label):
      s = label.lower()
      s = s.replace("%", "pct").replace("&", "and").replace("/", "_")
      s = re.sub(r"[^a-z0-9]+", "_", s)
      return s.strip("_")
  \<close>
  \<open>str.lower\<close> follows the Unicode tables, which are not part of the repository: it
  is the parameter \<open>lower\<close>. The other steps only look at ASCII characters, so they
  read the same whether a \<open>char\<close> is a code point or a byte of the UTF-8 encoding.
  \<open>in_class_az09\<close> is the character class \<open>[a-z0-9]\<close>; \<open>re_sub_runs\<close> replaces each
  maximal run of characters outside the class by one underscore.
\<close>

definition in_class_az09 :: "char \<Rightarrow> bool" where
  "in_class_az09 c = ((CHR ''a'' \<le> c \<and> c \<le> CHR ''z'') \<or> (CHR ''0'' \<le> c \<and> c \<le> CHR ''9''))"

function re_sub_runs :: "string \<Rightarrow> string" where
  "re_sub_runs [] = []"
| "re_sub_runs (c # cs) =
     (if in_class_az09 c then c # re_sub_runs cs
      else CHR ''_'' # re_sub_runs (dropWhile (\<lambda>x. \<not> in_class_az09 x) cs))"
  by pat_completeness auto
termination
  by (relation "measure length") (auto simp: le_imp_less_Suc length_dropWhile_le)

definition str_replace1 :: "char \<Rightarrow> string \<Rightarrow> string \<Rightarrow> string" where
  "str_replace1 old new s = concat (map (\<lambda>c. if c = old then new else [c]) s)"

definition str_strip :: "char \<Rightarrow> string \<Rightarrow> string" where
  "str_strip c s = rev (dropWhile (\<lambda>x. x = c) (rev (dropWhile (\<lambda>x. x = c) s)))"

definition label_to_filename :: "(string \<Rightarrow> string) \<Rightarrow> string \<Rightarrow> string" where
  "label_to_filename lower label =
     (let s = lower label;
          s = str_replace1 CHR ''/'' ''_'' (str_replace1 CHR ''&'' ''and'' (str_replace1 CHR ''%'' ''pct'' s));
          s = re_sub_runs s
      in str_strip CHR ''_'' s)"

text \<open>The characters a file name may contain, and the ASCII lowering for the examples.\<close>

definition lowercase_letters :: string where
  "lowercase_letters = ''abcdefghijklmnopqrstuvwxyz''"

definition digits :: string where
  "digits = ''0123456789''"

definition filename_chars :: string where
  "filename_chars = lowercase_letters @ digits @ ''_''"

definition ascii_lower :: "string \<Rightarrow> string" where
  "ascii_lower s = map (\<lambda>c. if CHR ''A'' \<le> c \<and> c \<le> CHR ''Z'' then char_of (of_char c + (32::nat)) else c) s"

section \<open>Resolving a dataset to a version URL\<close>

subsection \<open>04\_batch\_download.py: get\_edition\_url\<close>

text \<open>
  \<^verbatim>\<open>
  def get_edition_url(dataset_id, preferred_edition="time-series"):
      data = get_json(ROOT_URL + f"datasets/{dataset_id}")
      if not data:
          return None
      fallback = data.get("links", {}).get("latest_version", {}).get("href")
      editions_url = data.get("links", {}).get("editions", {}).get("href")
      if not editions_url:
          return fallback
      editions = get_json(editions_url)
      if not editions:
          return fallback
      for item in editions.get("items", []):
          if item.get("edition") == preferred_edition:
              return item.get("links", {}).get("latest_version", {}).get("href")
      return fallback
  \<close>
  The dataset id and the preferred edition are strings. The result is a Python value
  (\<open>JNull\<close> is \<open>None\<close>) or an exception of the statements outside \<open>get_json\<close>.
\<close>

fun scan_editions_04 :: "string \<Rightarrow> json list \<Rightarrow> json \<Rightarrow> py_error + json" where
  "scan_editions_04 preferred [] fallback = Inr fallback"
| "scan_editions_04 preferred (item # items) fallback =
     (case dget item ''edition'' JNull of
        Inl e \<Rightarrow> Inl e
      | Inr name \<Rightarrow>
          if name = JStr preferred then link_href item ''latest_version''
          else scan_editions_04 preferred items fallback)"

definition dataset_url :: "string \<Rightarrow> url" where
  "dataset_url dataset_id = url_join [Text ROOT_URL, Text ''datasets/'', Text dataset_id]"

definition get_edition_url_04 :: "network \<Rightarrow> string \<Rightarrow> string \<Rightarrow> world \<Rightarrow> (py_error + json) \<times> world" where
  "get_edition_url_04 net dataset_id preferred w =
     (let r1 = get_json net (dataset_url dataset_id) [] 3 w; data = fst r1; w1 = snd r1 in
      if \<not> truthy data then (Inr JNull, w1)
      else case link_href data ''latest_version'' of
        Inl e \<Rightarrow> (Inl e, w1)
      | Inr fallback \<Rightarrow>
          (case link_href data ''editions'' of
             Inl e \<Rightarrow> (Inl e, w1)
           | Inr editions_url \<Rightarrow>
               if \<not> truthy editions_url then (Inr fallback, w1)
               else
                 (let r2 = get_json net (url_join [fmt editions_url]) [] 3 w1;
                      editions = fst r2; w2 = snd r2 in
                  if \<not> truthy editions then (Inr fallback, w2)
                  else case ebind (dget editions ''items'' (JArr [])) py_iter of
                    Inl e \<Rightarrow> (Inl e, w2)
                  | Inr items \<Rightarrow> (scan_editions_04 preferred items fallback, w2))))"

subsection \<open>03\_download\_timeseries.py: get\_edition\_url\<close>

text \<open>
  \<^verbatim>\<open>
  def get_edition_url(dataset_id, preferred_edition="time-series"):
      response = requests.get(ROOT_URL + f"datasets/{dataset_id}")
      response.raise_for_status()
      data = response.json()
      fallback_url = data.get("links", {}).get("latest_version", {}).get("href")
      editions_url = data.get("links", {}).get("editions", {}).get("href")
      if not editions_url:
          return fallback_url
      ed_response = requests.get(editions_url)
      ed_response.raise_for_status()
      for item in ed_response.json().get("items", []):
          if item.get("edition") == preferred_edition:
              return item["links"]["latest_version"]["href"]
      return fallback_url
  \<close>
  No retry here: an exception of a GET leaves the function.
\<close>

fun scan_editions_03 :: "string \<Rightarrow> json list \<Rightarrow> json \<Rightarrow> py_error + json" where
  "scan_editions_03 preferred [] fallback = Inr fallback"
| "scan_editions_03 preferred (item # items) fallback =
     (case dget item ''edition'' JNull of
        Inl e \<Rightarrow> Inl e
      | Inr name \<Rightarrow>
          if name = JStr preferred then link_href_strict item ''latest_version''
          else scan_editions_03 preferred items fallback)"

definition get_edition_url_03 :: "network \<Rightarrow> string \<Rightarrow> string \<Rightarrow> world \<Rightarrow> (py_error + json) \<times> world" where
  "get_edition_url_03 net dataset_id preferred w =
     (let r1 = requests_get net (dataset_url dataset_id) [] w; w1 = snd r1 in
      case fst r1 of
        Inl e \<Rightarrow> (Inl e, w1)
      | Inr data \<Rightarrow>
          (case link_href data ''latest_version'' of
             Inl e \<Rightarrow> (Inl e, w1)
           | Inr fallback_url \<Rightarrow>
               (case link_href data ''editions'' of
                  Inl e \<Rightarrow> (Inl e, w1)
                | Inr editions_url \<Rightarrow>
                    if \<not> truthy editions_url then (Inr fallback_url, w1)
                    else
                      (let r2 = requests_get net (url_join [fmt editions_url]) [] w1; w2 = snd r2 in
                       case ebind (ebind (fst r2) (\<lambda>body. dget body ''items'' (JArr []))) py_iter of
                         Inl e \<Rightarrow> (Inl e, w2)
                       | Inr items \<Rightarrow> (scan_editions_03 preferred items fallback_url, w2)))))"

subsection \<open>02\_explore\_dimensions.py: get\_latest\_version\_url\<close>

text \<open>
  \<^verbatim>\<open>
  def get_latest_version_url(dataset_id):
      response = requests.get(ROOT_URL + f"datasets/{dataset_id}")
      response.raise_for_status()
      data = response.json()
      print(f"  Title: {data.get('title', '?')}")
      editions_url = data.get("links", {}).get("editions", {}).get("href")
      if editions_url:
          ed_response = requests.get(editions_url)
          ed_response.raise_for_status()
          editions = ed_response.json().get("items", [])
          print(f"  Available editions: {[e.get('edition') for e in editions]}")
          for edition in editions:
              if edition.get("edition") == "time-series":
                  return edition["links"]["latest_version"]["href"]
          if editions:
              return editions[-1]["links"]["latest_version"]["href"]
      return data.get("links", {}).get("latest_version", {}).get("href")
  \<close>
  What \<open>print\<close> writes is left out, but its arguments are evaluated: the comprehension
  calls \<open>e.get('edition')\<close> on every listed edition before the loop starts.
  After the comprehension and the loop have gone through \<open>editions\<close> without an
  exception, a true \<open>editions\<close> is a non-empty list, and \<open>editions[-1]\<close> is its last
  element.
\<close>

fun edition_names :: "json list \<Rightarrow> py_error + json list" where
  "edition_names [] = Inr []"
| "edition_names (e # es) =
     (case dget e ''edition'' JNull of
        Inl err \<Rightarrow> Inl err
      | Inr name \<Rightarrow> (case edition_names es of Inl err \<Rightarrow> Inl err | Inr names \<Rightarrow> Inr (name # names)))"

fun scan_editions_02 :: "json list \<Rightarrow> (py_error + json) option" where
  "scan_editions_02 [] = None"
| "scan_editions_02 (edition # editions) =
     (case dget edition ''edition'' JNull of
        Inl e \<Rightarrow> Some (Inl e)
      | Inr name \<Rightarrow>
          if name = JStr ''time-series'' then Some (link_href_strict edition ''latest_version'')
          else scan_editions_02 editions)"

definition get_latest_version_url :: "network \<Rightarrow> string \<Rightarrow> world \<Rightarrow> (py_error + json) \<times> world" where
  "get_latest_version_url net dataset_id w =
     (let r1 = requests_get net (dataset_url dataset_id) [] w; w1 = snd r1 in
      case fst r1 of
        Inl e \<Rightarrow> (Inl e, w1)
      | Inr data \<Rightarrow>
          (case dget data ''title'' (JStr ''?'') of
             Inl e \<Rightarrow> (Inl e, w1)
           | Inr title \<Rightarrow>
               (case link_href data ''editions'' of
                  Inl e \<Rightarrow> (Inl e, w1)
                | Inr editions_url \<Rightarrow>
                    if truthy editions_url then
                      (let r2 = requests_get net (url_join [fmt editions_url]) [] w1; w2 = snd r2 in
                       case ebind (fst r2) (\<lambda>body. dget body ''items'' (JArr [])) of
                         Inl e \<Rightarrow> (Inl e, w2)
                       | Inr editions \<Rightarrow>
                           (case ebind (py_iter editions) edition_names of
                              Inl e \<Rightarrow> (Inl e, w2)
                            | Inr names \<Rightarrow>
                                (case ebind (py_iter editions) (\<lambda>es. Inr (scan_editions_02 es)) of
                                   Inl e \<Rightarrow> (Inl e, w2)
                                 | Inr (Some r) \<Rightarrow> (r, w2)
                                 | Inr None \<Rightarrow>
                                     if truthy editions then
                                       (case editions of
                                          JArr es \<Rightarrow> (link_href_strict (last es) ''latest_version'', w2)
                                        | _ \<Rightarrow> (Inl TypeError, w2))
                                     else (link_href data ''latest_version'', w2))))
                    else (link_href data ''latest_version'', w1))))"

text \<open>
  A catalogue for the examples: the dataset \<open>demo\<close> has a dataset-level link and two
  editions, neither of them called \<open>time-series\<close>.
\<close>

definition demo_edition :: "string \<Rightarrow> string \<Rightarrow> json" where
  "demo_edition name href =
     JObj [(''edition'', JStr name),
           (''links'', JObj [(''latest_version'', JObj [(''href'', JStr href)])])]"

definition demo_dataset :: json where
  "demo_dataset =
     JObj [(''title'', JStr ''Demo''),
           (''links'', JObj [(''editions'', JObj [(''href'', JStr ''E'')]),
                             (''latest_version'', JObj [(''href'', JStr ''D/latest'')])])]"

definition demo_editions :: json where
  "demo_editions = JObj [(''items'', JArr [demo_edition ''2023'' ''E/2023/1'', demo_edition ''2024'' ''E/2024/3''])]"

definition demo_net :: network where
  "demo_net n u ps =
     (if u = dataset_url ''demo'' then Inr demo_dataset
      else if u = [Text ''E''] then Inr demo_editions
      else Inl HTTPError)"

text \<open>The same catalogue when the editions listing cannot be fetched.\<close>

definition demo_net_no_listing :: network where
  "demo_net_no_listing n u ps =
     (if u = dataset_url ''demo'' then Inr demo_dataset else Inl HTTPError)"

text \<open>
  A listing has no edition of a given name when every item is a dict whose \<open>edition\<close>
  entry, if any, differs from the name.
\<close>

definition no_edition_named :: "string \<Rightarrow> json list \<Rightarrow> bool" where
  "no_edition_named name items =
     list_all (\<lambda>item. case item of JObj kvs \<Rightarrow> map_of kvs ''edition'' \<noteq> Some (JStr name) | _ \<Rightarrow> False) items"

section \<open>01\_list\_datasets.py: get\_all\_datasets\<close>

text \<open>
  \<^verbatim>\<open>
  def get_all_datasets():
      datasets = []
      offset = 0
      limit = 50  # max items per page
      while True:
          response = requests.get(
              ROOT_URL + "datasets",
              params={"offset": offset, "limit": limit},
          )
          response.raise_for_status()
          data = response.json()
          items = data.get("items", [])
          if not items:
              break  # no more pages
          datasets.extend(items)
          offset += len(items)
      return datasets
  \<close>
  Nothing bounds the loop: a server that always sends a non-empty page keeps it running.
  The loop is a partial function, \<open>None\<close> standing for a run that does not end.
  \<open>extend\<close> and \<open>len\<close> go through \<open>py_iter\<close>: a page that is true but cannot be
  iterated raises.
\<close>

definition datasets_url :: url where
  "datasets_url = url_join [Text ROOT_URL, Text ''datasets'']"

definition page_params :: "int \<Rightarrow> params" where
  "page_params offset = [(''offset'', JNum offset), (''limit'', JNum 50)]"

partial_function (option) get_all_datasets_loop ::
    "network \<Rightarrow> json list \<Rightarrow> int \<Rightarrow> world \<Rightarrow> ((py_error + json list) \<times> world) option" where
  "get_all_datasets_loop net datasets offset w =
     (let r = requests_get net datasets_url (page_params offset) w; w1 = snd r in
      case ebind (fst r) (\<lambda>data. dget data ''items'' (JArr [])) of
        Inl e \<Rightarrow> Some (Inl e, w1)
      | Inr items \<Rightarrow>
          if \<not> truthy items then Some (Inr datasets, w1)
          else (case py_iter items of
                  Inl e \<Rightarrow> Some (Inl e, w1)
                | Inr xs \<Rightarrow> get_all_datasets_loop net (datasets @ xs) (offset + int (length xs)) w1))"

definition get_all_datasets :: "network \<Rightarrow> world \<Rightarrow> ((py_error + json list) \<times> world) option" where
  "get_all_datasets net w = get_all_datasets_loop net [] 0 w"

text \<open>
  A simulated listing: the server holds \<open>items\<close> and answers a request for
  \<open>offset\<close> and \<open>limit\<close> with the items from \<open>offset\<close> on, at most \<open>limit\<close> and at
  most \<open>cap\<close> of them. Its page size is \<open>min limit cap\<close>.
\<close>

definition paged_server :: "json list \<Rightarrow> nat \<Rightarrow> network" where
  "paged_server items cap n u ps =
     (if u = datasets_url then
        (case (map_of ps ''offset'', map_of ps ''limit'') of
           (Some (JNum off), Some (JNum lim)) \<Rightarrow>
             if 0 \<le> off \<and> 0 \<le> lim
             then Inr (JObj [(''items'', JArr (take (min (nat lim) cap) (drop (nat off) items)))])
             else Inl HTTPError
         | _ \<Rightarrow> Inl HTTPError)
      else Inl HTTPError)"

section \<open>Fetching and ordering observations\<close>

subsection \<open>The loop over the observations (both scripts)\<close>

text \<open>
  \<^verbatim>\<open>
  rows = []
  for obs in data.get("observations", []):
      time_dim = (
          obs.get("dimensions", {}).get("Time")
          or obs.get("dimensions", {}).get("time")
      )
      if not time_dim:
          continue
      rows.append({
          "period": time_dim.get("id", ""),
          "period_label": time_dim.get("label", ""),
          "value": obs.get("observation"),
      })
  \<close>
  \<open>a or b\<close> is \<open>a\<close> when \<open>a\<close> is true and \<open>b\<close> otherwise; the second
  \<open>obs.get("dimensions", {})\<close> gives what the first gave. A row is a record; the column
  \<open>value\<close> is the field \<open>obs_value\<close>, of the type the column holds at the time.
\<close>

record 'v row =
  period :: json
  period_label :: json
  obs_value :: 'v

definition time_dim_of :: "json \<Rightarrow> py_error + json" where
  "time_dim_of obs =
     ebind (dget obs ''dimensions'' (JObj [])) (\<lambda>dims.
     ebind (dget dims ''Time'' JNull) (\<lambda>t.
     if truthy t then Inr t else dget dims ''time'' JNull))"

fun collect_rows :: "json list \<Rightarrow> py_error + json row list" where
  "collect_rows [] = Inr []"
| "collect_rows (obs # rest) =
     (case time_dim_of obs of
        Inl e \<Rightarrow> Inl e
      | Inr time_dim \<Rightarrow>
          if \<not> truthy time_dim then collect_rows rest
          else (case dget time_dim ''id'' (JStr []) of
                  Inl e \<Rightarrow> Inl e
                | Inr pid \<Rightarrow>
                    (case dget time_dim ''label'' (JStr []) of
                       Inl e \<Rightarrow> Inl e
                     | Inr plabel \<Rightarrow>
                         (case dget obs ''observation'' JNull of
                            Inl e \<Rightarrow> Inl e
                          | Inr v \<Rightarrow>
                              (case collect_rows rest of
                                 Inl e \<Rightarrow> Inl e
                               | Inr rows \<Rightarrow>
                                   Inr (\<lparr>period = pid, period_label = plabel, obs_value = v\<rparr> # rows))))))"

subsection \<open>The pandas calls\<close>

text \<open>
  pandas is not part of the repository. Its converters are parameters, applied cell by
  cell: \<open>to_numeric\<close> is \<open>pd.to_numeric(..., errors="coerce")\<close> on one cell (\<open>'n\<close>
  holds the numbers and NaN); \<open>to_datetime_b_y\<close> and \<open>to_datetime_mixed\<close> are
  \<open>pd.to_datetime\<close> with \<open>format="%b-%y"\<close> and with \<open>format="mixed", dayfirst=False\<close>
  on one cell: \<open>Inl\<close> when the call raises, \<open>Inr None\<close> for NaT (or \<open>None\<close>),
  \<open>Inr (Some t)\<close> for the timestamp \<open>t\<close>. A call on a column is the call on each of its
  cells; with \<open>errors="coerce"\<close> a cell that raises becomes NaT.

  A DataFrame is the list of its rows; the empty DataFrame is the empty list.
  \<open>sort_values\<close> puts the rows without a key (NaT, NaN, \<open>None\<close>) last, in their
  order, and sorts the others by their key. pandas does not promise an order among rows
  of equal keys; the model keeps them in their order, and nothing below rests on that.
\<close>

record ('n, 't) pandas =
  to_numeric :: "json \<Rightarrow> py_error + 'n"
  to_datetime_b_y :: "json \<Rightarrow> py_error + 't option"
  to_datetime_mixed :: "json \<Rightarrow> py_error + 't option"

fun emap :: "('a \<Rightarrow> py_error + 'b) \<Rightarrow> 'a list \<Rightarrow> py_error + 'b list" where
  "emap f [] = Inr []"
| "emap f (x # xs) =
     (case f x of
        Inl e \<Rightarrow> Inl e
      | Inr y \<Rightarrow> (case emap f xs of Inl e \<Rightarrow> Inl e | Inr ys \<Rightarrow> Inr (y # ys)))"

definition to_numeric_column :: "('n, 't) pandas \<Rightarrow> json row list \<Rightarrow> py_error + 'n row list" where
  "to_numeric_column pd rows =
     emap (\<lambda>r. case to_numeric pd (obs_value r) of
                  Inl e \<Rightarrow> Inl e
                | Inr n \<Rightarrow> Inr \<lparr>period = period r, period_label = period_label r, obs_value = n\<rparr>) rows"

definition sort_values_by :: "('a \<Rightarrow> ('k::linorder) option) \<Rightarrow> 'a list \<Rightarrow> 'a list" where
  "sort_values_by key rows =
     sort_key (\<lambda>r. the (key r)) (filter (\<lambda>r. key r \<noteq> None) rows) @ filter (\<lambda>r. key r = None) rows"

text \<open>
  \<open>df.sort_values("period")\<close>: the model follows pandas on a column of \<open>str\<close> and
  \<open>None\<close> cells (strings compare by code points, \<open>None\<close> counts as missing); any other
  cell gives \<open>Unsupported\<close>.
\<close>

fun period_cell :: "json \<Rightarrow> py_error + string option" where
  "period_cell (JStr s) = Inr (Some s)"
| "period_cell JNull = Inr None"
| "period_cell _ = Inl Unsupported"

definition period_key :: "'v row \<Rightarrow> string option" where
  "period_key r = (case period r of JStr s \<Rightarrow> Some s | _ \<Rightarrow> None)"

definition sort_values_period :: "'v row list \<Rightarrow> py_error + 'v row list" where
  "sort_values_period rows =
     (case emap (\<lambda>r. period_cell (period r)) rows of
        Inl e \<Rightarrow> Inl e
      | Inr cells \<Rightarrow> Inr (sort_values_by period_key rows))"

subsection \<open>04\_batch\_download.py: get\_observations\<close>

text \<open>
  \<^verbatim>\<open>
  def get_observations(edition_url, dimensions):
      data = get_json(edition_url + "/observations", params=dimensions)
      if not data:
          return pd.DataFrame()
      rows = []
      for obs in data.get("observations", []): ...
      df = pd.DataFrame(rows)
      if not df.empty:
          df["value"] = pd.to_numeric(df["value"], errors="coerce")
          def parse_period(s):
              try:
                  return pd.to_datetime(s, format="%b-%y")
              except Exception:
                  pass
              try:
                  return pd.to_datetime(s, format="mixed", dayfirst=False)
              except Exception:
                  return pd.NaT
          parsed = df["period_label"].apply(parse_period)
          if parsed.notna().any():
              df = df.assign(_sort=parsed).sort_values("_sort").drop(columns="_sort")
          else:
              df = df.sort_values("period")
          df = df.reset_index(drop=True)
      return df
  \<close>
  The edition URL is a string.
\<close>

definition parse_period :: "('n, 't) pandas \<Rightarrow> json \<Rightarrow> 't option" where
  "parse_period pd s =
     (case to_datetime_b_y pd s of
        Inr t \<Rightarrow> t
      | Inl e \<Rightarrow> (case to_datetime_mixed pd s of Inr t \<Rightarrow> t | Inl e' \<Rightarrow> None))"

definition order_rows_04 :: "('n, 't::linorder) pandas \<Rightarrow> 'v row list \<Rightarrow> py_error + 'v row list" where
  "order_rows_04 pd rows =
     (if \<exists>r \<in> set rows. parse_period pd (period_label r) \<noteq> None
      then Inr (sort_values_by (\<lambda>r. parse_period pd (period_label r)) rows)
      else sort_values_period rows)"

definition frame_04 :: "('n, 't::linorder) pandas \<Rightarrow> json row list \<Rightarrow> py_error + 'n row list" where
  "frame_04 pd rows =
     (if rows = [] then Inr []
      else ebind (to_numeric_column pd rows) (order_rows_04 pd))"

definition observations_url :: "string \<Rightarrow> url" where
  "observations_url edition_url = url_join [Text edition_url, Text ''/observations'']"

definition get_observations :: "('n, 't::linorder) pandas \<Rightarrow> network \<Rightarrow> string \<Rightarrow> params \<Rightarrow> world
    \<Rightarrow> (py_error + 'n row list) \<times> world" where
  "get_observations pd net edition_url dimensions w =
     (let r = get_json net (observations_url edition_url) dimensions 3 w; data = fst r; w1 = snd r in
      if \<not> truthy data then (Inr [], w1)
      else (ebind (ebind (ebind (dget data ''observations'' (JArr [])) py_iter) collect_rows)
              (frame_04 pd), w1))"

subsection \<open>03\_download\_timeseries.py: download\_observations\<close>

text \<open>
  \<^verbatim>\<open>
  def download_observations(edition_url, dimensions):
      response = requests.get(edition_url + "/observations", params=dimensions)
      response.raise_for_status()
      data = response.json()
      rows = []
      for obs in data.get("observations", []): ...
      df = pd.DataFrame(rows)
      if not df.empty:
          df["value"] = pd.to_numeric(df["value"], errors="coerce")
          try:
              parsed = pd.to_datetime(df["period_label"], format="%b-%y")
              df = df.assign(_sort=parsed).sort_values("_sort").drop(columns="_sort")
          except Exception:
              try:
                  parsed = pd.to_datetime(df["period_label"], format="mixed",
                                          dayfirst=False, errors="coerce")
                  if parsed.notna().any():
                      df = df.assign(_sort=parsed).sort_values("_sort").drop(columns="_sort")
                  else:
                      df = df.sort_values("period")
              except Exception:
                  df = df.sort_values("period")
          df = df.reset_index(drop=True)
      return df
  \<close>
  The first \<open>to_datetime\<close> raises when one cell raises. In the inner \<open>try\<close> only
  \<open>sort_values("period")\<close> can raise; the handler then runs the same call again.
\<close>

definition coerce_mixed :: "('n, 't) pandas \<Rightarrow> json \<Rightarrow> 't option" where
  "coerce_mixed pd s = (case to_datetime_mixed pd s of Inr t \<Rightarrow> t | Inl e \<Rightarrow> None)"

definition parsed_b_y :: "('n, 't) pandas \<Rightarrow> json \<Rightarrow> 't option" where
  "parsed_b_y pd s = (case to_datetime_b_y pd s of Inr t \<Rightarrow> t | Inl e \<Rightarrow> None)"

definition order_rows_03 :: "('n, 't::linorder) pandas \<Rightarrow> 'v row list \<Rightarrow> py_error + 'v row list" where
  "order_rows_03 pd rows =
     (case emap (\<lambda>r. to_datetime_b_y pd (period_label r)) rows of
        Inr parsed \<Rightarrow>
          Inr (sort_values_by (\<lambda>r. parsed_b_y pd (period_label r)) rows)
      | Inl e \<Rightarrow>
          (case (if \<exists>r \<in> set rows. coerce_mixed pd (period_label r) \<noteq> None
                 then Inr (sort_values_by (\<lambda>r. coerce_mixed pd (period_label r)) rows)
                 else sort_values_period rows) of
             Inr df \<Rightarrow> Inr df
           | Inl e' \<Rightarrow> sort_values_period rows))"

definition frame_03 :: "('n, 't::linorder) pandas \<Rightarrow> json row list \<Rightarrow> py_error + 'n row list" where
  "frame_03 pd rows =
     (if rows = [] then Inr []
      else ebind (to_numeric_column pd rows) (order_rows_03 pd))"

definition download_observations :: "('n, 't::linorder) pandas \<Rightarrow> network \<Rightarrow> string \<Rightarrow> params \<Rightarrow> world
    \<Rightarrow> (py_error + 'n row list) \<times> world" where
  "download_observations pd net edition_url dimensions w =
     (let r = requests_get net (observations_url edition_url) dimensions w in
      (ebind (ebind (ebind (ebind (fst r) (\<lambda>data. dget data ''observations'' (JArr []))) py_iter)
                collect_rows) (frame_03 pd), snd r))"

subsection \<open>A reference instance of the pandas calls\<close>

text \<open>
  For the examples only. \<open>ref_to_numeric\<close> reads integers; \<open>ref_b_y\<close> reads an
  abbreviated English month name (in any case), a dash and two digits, with the years
  00-68 in 2000-2068 and 69-99 in 1969-1999; \<open>ref_mixed\<close> reads a year of four digits
  and nothing else. An empty text and \<open>None\<close> give NaT. A timestamp is the number of
  its month, counted from year 0. The examples use only labels on which these readings
  and pandas agree.
\<close>

definition digit_value :: "char \<Rightarrow> int option" where
  "digit_value c = (if CHR ''0'' \<le> c \<and> c \<le> CHR ''9'' then Some (of_char c - 48) else None)"

fun digits_value :: "int \<Rightarrow> string \<Rightarrow> int option" where
  "digits_value acc [] = Some acc"
| "digits_value acc (c # cs) =
     (case digit_value c of None \<Rightarrow> None | Some d \<Rightarrow> digits_value (10 * acc + d) cs)"

fun index_of :: "'a \<Rightarrow> 'a list \<Rightarrow> nat option" where
  "index_of x [] = None"
| "index_of x (y # ys) = (if x = y then Some 0 else map_option Suc (index_of x ys))"

definition month_names :: "string list" where
  "month_names = [''jan'', ''feb'', ''mar'', ''apr'', ''may'', ''jun'',
                  ''jul'', ''aug'', ''sep'', ''oct'', ''nov'', ''dec'']"

definition strptime_b_y :: "string \<Rightarrow> int option" where
  "strptime_b_y s =
     (if length s = 6 \<and> s ! 3 = CHR ''-'' then
        (case (index_of (ascii_lower (take 3 s)) month_names, digits_value 0 (drop 4 s)) of
           (Some m, Some yy) \<Rightarrow>
             Some ((if yy \<le> 68 then 2000 + yy else 1900 + yy) * 12 + int m)
         | _ \<Rightarrow> None)
      else None)"

fun ref_b_y :: "json \<Rightarrow> py_error + int option" where
  "ref_b_y (JStr s) =
     (if s = [] then Inr None
      else case strptime_b_y s of Some t \<Rightarrow> Inr (Some t) | None \<Rightarrow> Inl ValueError)"
| "ref_b_y JNull = Inr None"
| "ref_b_y _ = Inl ValueError"

fun ref_mixed :: "json \<Rightarrow> py_error + int option" where
  "ref_mixed (JStr s) =
     (if s = [] then Inr None
      else if length s = 4 then
        (case digits_value 0 s of Some y \<Rightarrow> Inr (Some (y * 12)) | None \<Rightarrow> Inl ValueError)
      else Inl ValueError)"
| "ref_mixed JNull = Inr None"
| "ref_mixed _ = Inl ValueError"

fun ref_to_numeric :: "json \<Rightarrow> py_error + int option" where
  "ref_to_numeric (JNum n) = Inr (Some n)"
| "ref_to_numeric (JBool b) = Inr (Some (if b then 1 else 0))"
| "ref_to_numeric JNull = Inr None"
| "ref_to_numeric (JStr s) =
     (if s = [] then Inr None else Inr (digits_value 0 s))"
| "ref_to_numeric _ = Inl TypeError"

definition ref_pandas :: "(int option, int) pandas" where
  "ref_pandas = \<lparr>to_numeric = ref_to_numeric, to_datetime_b_y = ref_b_y, to_datetime_mixed = ref_mixed\<rparr>"

text \<open>An observation as the API sends it, and a server that answers every GET with one body.\<close>

definition observation :: "string \<Rightarrow> string \<Rightarrow> string \<Rightarrow> string \<Rightarrow> json" where
  "observation time_key pid plabel v =
     JObj [(''dimensions'', JObj [(time_key, JObj [(''id'', JStr pid), (''label'', JStr plabel)])]),
           (''observation'', JStr v)]"

definition example_row :: "string \<Rightarrow> string \<Rightarrow> int \<Rightarrow> int option row" where
  "example_row pid plabel v = \<lparr>period = JStr pid, period_label = JStr plabel, obs_value = Some v\<rparr>"

definition const_net :: "json \<Rightarrow> network" where
  "const_net body n u ps = Inr body"

definition observations_body :: "json list \<Rightarrow> json" where
  "observations_body obs = JObj [(''observations'', JArr obs)]"

text \<open>
  The order in which \<open>sort_values\<close> leaves the keys: a row without a key is never
  before a row with one, and rows with keys are in ascending order.
\<close>

definition na_last_le :: "('k::linorder) option \<Rightarrow> 'k option \<Rightarrow> bool" where
  "na_last_le a b =
     (case b of None \<Rightarrow> True | Some y \<Rightarrow> (case a of None \<Rightarrow> False | Some x \<Rightarrow> x \<le> y))"

fun is_text_or_none :: "json \<Rightarrow> bool" where
  "is_text_or_none (JStr s) = True"
| "is_text_or_none JNull = True"
| "is_text_or_none _ = False"

text \<open>The value of a key of a dict, \<open>None\<close> when the key is missing.\<close>

definition jget :: "(string \<times> json) list \<Rightarrow> string \<Rightarrow> json" where
  "jget kvs k = (case map_of kvs k of Some v \<Rightarrow> v | None \<Rightarrow> JNull)"

section \<open>02\_explore\_dimensions.py: explore\_dimensions\<close>





















section \<open>Properties of get\_json\<close>

lemma get_json_loop_ok:
  assumes "attempt < retries" and "net (requests w) u ps = Inr j"
  shows "get_json_loop net u ps retries attempt w = (j, w\<lparr>requests := Suc (requests w)\<rparr>)"
  using assms by (simp add: get_json_loop.simps [of net u ps retries attempt w] requests_get_def)

lemma get_json_loop_retry:
  assumes "attempt < retries - 1" and "net (requests w) u ps = Inl e"
  shows "get_json_loop net u ps retries attempt w =
         get_json_loop net u ps retries (attempt + 1)
           (time_sleep (2 ^ nat attempt) (w\<lparr>requests := Suc (requests w)\<rparr>))"
  using assms by (simp add: get_json_loop.simps [of net u ps retries attempt w] requests_get_def)

lemma get_json_loop_last:
  assumes "attempt < retries" and "\<not> attempt < retries - 1" and "net (requests w) u ps = Inl e"
  shows "get_json_loop net u ps retries attempt w = (JNull, w\<lparr>requests := Suc (requests w)\<rparr>)"
  using assms by (simp add: get_json_loop.simps [of net u ps retries attempt w] requests_get_def)

lemma get_json_first:
  assumes "net (requests w) u ps = Inr j"
  shows "get_json net u ps 3 w = (j, w\<lparr>requests := requests w + 1\<rparr>)"
  using assms by (simp add: get_json_def get_json_loop_ok)

lemma get_json_second:
  assumes "net (requests w) u ps = Inl e1" and "net (requests w + 1) u ps = Inr j"
  shows "get_json net u ps 3 w = (j, w\<lparr>requests := requests w + 2, sleeps := sleeps w @ [1]\<rparr>)"
proof -
  let ?w1 = "time_sleep 1 (w\<lparr>requests := Suc (requests w)\<rparr>)"
  have "get_json net u ps 3 w = get_json_loop net u ps 3 1 ?w1"
    using get_json_loop_retry [of 0 3 net w u ps e1] assms(1) by (simp add: get_json_def)
  also have "\<dots> = (j, ?w1\<lparr>requests := Suc (requests ?w1)\<rparr>)"
    using assms(2) by (intro get_json_loop_ok) (simp_all add: time_sleep_def)
  finally show ?thesis by (simp add: time_sleep_def)
qed

lemma get_json_two_failed:
  assumes "net (requests w) u ps = Inl e1" and "net (requests w + 1) u ps = Inl e2"
  shows "get_json net u ps 3 w =
         get_json_loop net u ps 3 2 (w\<lparr>requests := requests w + 2, sleeps := sleeps w @ [1, 2]\<rparr>)"
proof -
  let ?w1 = "time_sleep 1 (w\<lparr>requests := Suc (requests w)\<rparr>)"
  have "get_json net u ps 3 w = get_json_loop net u ps 3 1 ?w1"
    using get_json_loop_retry [of 0 3 net w u ps e1] assms(1) by (simp add: get_json_def)
  also have "\<dots> = get_json_loop net u ps 3 2 (time_sleep 2 (?w1\<lparr>requests := Suc (requests ?w1)\<rparr>))"
    using get_json_loop_retry [of 1 3 net ?w1 u ps e2] assms(2) by (simp add: time_sleep_def)
  finally show ?thesis by (simp add: time_sleep_def)
qed

lemma get_json_third:
  assumes "net (requests w) u ps = Inl e1" and "net (requests w + 1) u ps = Inl e2"
    and "net (requests w + 2) u ps = Inr j"
  shows "get_json net u ps 3 w = (j, w\<lparr>requests := requests w + 3, sleeps := sleeps w @ [1, 2]\<rparr>)"
  using assms get_json_two_failed [of net w u ps e1 e2] by (simp add: get_json_loop_ok)

lemma get_json_failed:
  assumes "net (requests w) u ps = Inl e1" and "net (requests w + 1) u ps = Inl e2"
    and "net (requests w + 2) u ps = Inl e3"
  shows "get_json net u ps 3 w = (JNull, w\<lparr>requests := requests w + 3, sleeps := sleeps w @ [1, 2]\<rparr>)"
  using assms get_json_two_failed [of net w u ps e1 e2]
  by (simp add: get_json_loop_last [where e = e3])

text \<open>
  Claim C7. With the default \<open>retries = 3\<close>, \<open>get_json\<close> makes at most three GETs.
  When the first two fail and the third succeeds it returns the parsed JSON of the third
  (after sleeping 1 s and 2 s); when all three fail it returns \<open>None\<close>. The function
  has no exceptional result: every failure of a GET is turned into a retry or into
  \<open>None\<close>.
\<close>

theorem get_json_three_attempts:
  "requests (snd (get_json net u ps 3 w)) \<le> requests w + 3 \<and>
   (isl (net (requests w) u ps) \<and> isl (net (requests w + 1) u ps) \<and>
      net (requests w + 2) u ps = Inr j \<longrightarrow> get_json net u ps 3 w =
        (j, w\<lparr>requests := requests w + 3, sleeps := sleeps w @ [1, 2]\<rparr>)) \<and>
   (isl (net (requests w) u ps) \<and> isl (net (requests w + 1) u ps) \<and>
      isl (net (requests w + 2) u ps) \<longrightarrow> fst (get_json net u ps 3 w) = JNull)"
proof (intro conjI impI)
  show "requests (snd (get_json net u ps 3 w)) \<le> requests w + 3"
  proof (cases "net (requests w) u ps")
    case (Inr a)
    then show ?thesis by (simp add: get_json_first)
  next
    case a: (Inl e1)
    show ?thesis
    proof (cases "net (requests w + 1) u ps")
      case (Inr b)
      then show ?thesis using a by (simp add: get_json_second)
    next
      case b: (Inl e2)
      show ?thesis
        using a b get_json_third [of net w u ps e1 e2] get_json_failed [of net w u ps e1 e2]
        by (cases "net (requests w + 2) u ps") simp_all
    qed
  qed
next
  assume "isl (net (requests w) u ps) \<and> isl (net (requests w + 1) u ps) \<and>
      net (requests w + 2) u ps = Inr j"
  then show "get_json net u ps 3 w = (j, w\<lparr>requests := requests w + 3, sleeps := sleeps w @ [1, 2]\<rparr>)"
    by (auto simp: isl_def get_json_third)
next
  assume "isl (net (requests w) u ps) \<and> isl (net (requests w + 1) u ps) \<and>
      isl (net (requests w + 2) u ps)"
  then show "fst (get_json net u ps 3 w) = JNull"
    by (auto simp: isl_def get_json_failed)
qed

theorem get_json_three_attempts_witness:
  "get_json (flaky_net (JStr ''ok'')) [Text ''u''] [] 3 world0 =
     (JStr ''ok'', \<lparr>requests = 3, sleeps = [1, 2]\<rparr>) \<and>
   fst (get_json dead_net [Text ''u''] [] 3 world0) = JNull \<and>
   requests (snd (get_json dead_net [Text ''u''] [] 3 world0)) \<le> 3"
  using get_json_three_attempts [of "flaky_net (JStr ''ok'')" "[Text ''u'']" "[]" world0 "JStr ''ok''"]
    get_json_three_attempts [of dead_net "[Text ''u'']" "[]" world0]
  by (simp add: flaky_net_def dead_net_def world0_def)

text \<open>
  Claim C8 as stated: the sleeps of a call whose every attempt fails add up to
  1 + 2 + 4 = 7 seconds. On a network that never answers they do not.
\<close>

theorem get_json_backoff_not_seven:
  "sum_list (sleeps (snd (get_json dead_net [Text ''u''] [] 3 world0))) \<noteq> 7"
  by (simp add: get_json_failed [of dead_net _ _ _ HTTPError HTTPError HTTPError] dead_net_def world0_def)

text \<open>
  Claim C8, amended. The guard \<open>attempt < retries - 1\<close> lets the function sleep only
  between attempts: 1 s after the first failure and 2 s after the second, none after the
  third. The sleeps of a call whose three attempts fail add up to 3 seconds.
\<close>

theorem get_json_backoff_total:
  assumes "isl (net (requests w) u ps)" and "isl (net (requests w + 1) u ps)"
    and "isl (net (requests w + 2) u ps)"
  shows "sleeps (snd (get_json net u ps 3 w)) = sleeps w @ [1, 2] \<and>
         sum_list (sleeps (snd (get_json net u ps 3 w))) = sum_list (sleeps w) + 3"
  using assms by (auto simp: isl_def get_json_failed)

theorem get_json_backoff_total_witness:
  "sleeps (snd (get_json dead_net [Text ''u''] [] 3 world0)) = [1, 2] \<and>
   sum_list (sleeps (snd (get_json dead_net [Text ''u''] [] 3 world0))) = 3"
  using get_json_backoff_total [of dead_net world0 "[Text ''u'']" "[]"]
  by (simp add: dead_net_def world0_def)

section \<open>Properties of label\_to\_filename\<close>

lemma lower_range:
  assumes "CHR ''a'' \<le> c" and "c \<le> CHR ''z''"
  shows "c \<in> set lowercase_letters"
proof -
  define n where "n = (of_char c :: nat)"
  have "97 \<le> n" and "n \<le> 122"
    using assms by (simp_all add: less_eq_char_def n_def)
  then have "n = 97 \<or> n = 98 \<or> n = 99 \<or> n = 100 \<or> n = 101 \<or> n = 102 \<or> n = 103 \<or> n = 104
      \<or> n = 105 \<or> n = 106 \<or> n = 107 \<or> n = 108 \<or> n = 109 \<or> n = 110 \<or> n = 111 \<or> n = 112
      \<or> n = 113 \<or> n = 114 \<or> n = 115 \<or> n = 116 \<or> n = 117 \<or> n = 118 \<or> n = 119 \<or> n = 120
      \<or> n = 121 \<or> n = 122"
    by arith
  then show ?thesis
    unfolding n_def lowercase_letters_def
    by (elim disjE) (simp_all flip: of_char_eq_iff [where 'a = nat])
qed

lemma digit_range:
  assumes "CHR ''0'' \<le> c" and "c \<le> CHR ''9''"
  shows "c \<in> set digits"
proof -
  define n where "n = (of_char c :: nat)"
  have "48 \<le> n" and "n \<le> 57"
    using assms by (simp_all add: less_eq_char_def n_def)
  then have "n = 48 \<or> n = 49 \<or> n = 50 \<or> n = 51 \<or> n = 52 \<or> n = 53 \<or> n = 54 \<or> n = 55
      \<or> n = 56 \<or> n = 57"
    by arith
  then show ?thesis
    unfolding n_def digits_def
    by (elim disjE) (simp_all flip: of_char_eq_iff [where 'a = nat])
qed

lemma in_class_az09_set: "in_class_az09 c \<Longrightarrow> c \<in> set filename_chars"
  unfolding in_class_az09_def filename_chars_def
  using lower_range [of c] digit_range [of c] by (simp only: set_append Un_iff) blast

lemma underscore_filename_char: "CHR ''_'' \<in> set filename_chars"
  by (simp add: filename_chars_def)

lemma re_sub_runs_chars: "set (re_sub_runs s) \<subseteq> set filename_chars"
proof (induction s rule: re_sub_runs.induct)
  case 1
  show ?case by simp
next
  case (2 c cs)
  show ?case
  proof (cases "in_class_az09 c")
    case True
    with 2 in_class_az09_set [of c] show ?thesis by simp
  next
    case False
    with 2 underscore_filename_char show ?thesis by simp
  qed
qed

lemma str_strip_subset: "set (str_strip c s) \<subseteq> set s"
proof
  fix x assume "x \<in> set (str_strip c s)"
  then have "x \<in> set (dropWhile (\<lambda>x. x = c) (rev (dropWhile (\<lambda>x. x = c) s)))"
    by (simp add: str_strip_def)
  then have "x \<in> set (rev (dropWhile (\<lambda>x. x = c) s))" by (rule set_dropWhileD)
  then have "x \<in> set (dropWhile (\<lambda>x. x = c) s)" by simp
  then show "x \<in> set s" by (rule set_dropWhileD)
qed

lemma dropWhile_not_Cons: "dropWhile (\<lambda>x. x = c) xs \<noteq> c # t"
  by (induction xs) auto

lemma rev_dropWhile_rev_keeps_head:
  "xs \<noteq> [] \<Longrightarrow> hd xs \<noteq> c \<Longrightarrow> rev (dropWhile (\<lambda>x. x = c) (rev xs)) \<noteq> [] \<Longrightarrow>
   hd (rev (dropWhile (\<lambda>x. x = c) (rev xs))) = hd xs"
proof (induction xs rule: rev_induct)
  case Nil
  then show ?case by simp
next
  case (snoc y ys)
  show ?case
  proof (cases "y = c")
    case True
    show ?thesis
    proof (cases "ys = []")
      case True
      with \<open>y = c\<close> snoc.prems show ?thesis by simp
    next
      case False
      with True snoc show ?thesis by simp
    qed
  next
    case False
    then show ?thesis by simp
  qed
qed

lemma str_strip_no_prefix: "\<not> prefix [c] (str_strip c s)"
proof
  assume "prefix [c] (str_strip c s)"
  then obtain t where t: "str_strip c s = c # t" by (auto simp: prefix_def)
  let ?d = "dropWhile (\<lambda>x. x = c) s"
  have ne: "?d \<noteq> []"
  proof
    assume "?d = []"
    then have "str_strip c s = []" by (simp only: str_strip_def rev.simps dropWhile.simps)
    with t show False by simp
  qed
  have hd: "hd ?d \<noteq> c" using ne hd_dropWhile [of "\<lambda>x. x = c" s] by simp
  have "hd (str_strip c s) = hd ?d"
    unfolding str_strip_def using ne hd t
    by (intro rev_dropWhile_rev_keeps_head) (simp_all add: str_strip_def)
  with t hd show False by simp
qed

lemma str_strip_no_suffix: "\<not> suffix [c] (str_strip c s)"
proof
  assume "suffix [c] (str_strip c s)"
  then obtain t where t: "str_strip c s = t @ [c]" by (auto simp: suffix_def)
  let ?d = "dropWhile (\<lambda>x. x = c) s"
  have "rev (str_strip c s) = c # rev t" using t by simp
  then have "dropWhile (\<lambda>x. x = c) (rev ?d) = c # rev t"
    by (simp add: str_strip_def)
  then show False using dropWhile_not_Cons [of c "rev ?d" "rev t"] by simp
qed

text \<open>
  Claim C10. Whatever \<open>str.lower\<close> does to the label, every character of the file
  name is a lowercase letter, a digit or an underscore, and the name neither starts nor
  ends with an underscore.
\<close>

theorem label_to_filename_charset:
  "set (label_to_filename lower label) \<subseteq> set filename_chars \<and>
   \<not> prefix ''_'' (label_to_filename lower label) \<and>
   \<not> suffix ''_'' (label_to_filename lower label)"
proof -
  obtain s where s: "label_to_filename lower label = str_strip CHR ''_'' (re_sub_runs s)"
    by (simp add: label_to_filename_def Let_def)
  have "set (str_strip CHR ''_'' (re_sub_runs s)) \<subseteq> set filename_chars"
    using str_strip_subset re_sub_runs_chars by (rule subset_trans)
  then show ?thesis
    unfolding s using str_strip_no_prefix str_strip_no_suffix by blast
qed

text \<open>The example of the docstring.\<close>

lemma label_to_filename_docstring_example:
  "label_to_filename ascii_lower ''GDP growth (QoQ)'' = ''gdp_growth_qoq''"
  by code_simp

section \<open>Properties of the resolvers\<close>

lemma link_href_truthy:
  assumes "link_href x name = Inr v" and "truthy v"
  shows "truthy x"
proof (cases x)
  case (JObj kvs)
  show ?thesis
  proof (cases kvs)
    case Nil
    with JObj assms show ?thesis by (simp add: link_href_def)
  next
    case (Cons a list)
    with JObj show ?thesis by simp
  qed
qed (use assms in \<open>simp_all add: link_href_def\<close>)

lemma scan_editions_04_no_match:
  "no_edition_named preferred items \<Longrightarrow> scan_editions_04 preferred items fallback = Inr fallback"
  by (induction items) (auto simp: no_edition_named_def split: json.splits option.splits)

lemma scan_editions_03_no_match:
  "no_edition_named preferred items \<Longrightarrow> scan_editions_03 preferred items fallback = Inr fallback"
  by (induction items) (auto simp: no_edition_named_def split: json.splits option.splits)

lemma scan_editions_02_no_match:
  "no_edition_named ''time-series'' items \<Longrightarrow> scan_editions_02 items = None"
  by (induction items) (auto simp: no_edition_named_def split: json.splits option.splits)

lemma edition_names_dicts:
  "no_edition_named name items \<Longrightarrow> \<exists>names. edition_names items = Inr names"
  by (induction items) (auto simp: no_edition_named_def split: json.splits option.splits)

text \<open>
  Claim C1, amended. The dataset answers with \<open>data\<close>, whose links give the
  dataset-level \<open>fallback\<close> and a true editions URL; the editions listing is a
  non-empty list of dicts, none of them named like the preferred edition. Then both
  versions of \<open>get_edition_url\<close> return the dataset-level \<open>latest_version\<close> link, and
  \<open>get_latest_version_url\<close> (whose preferred edition is always \<open>time-series\<close>) returns
  what \<open>editions[-1]["links"]["latest_version"]["href"]\<close> gives for the last listed
  edition.
\<close>

theorem resolver_no_match:
  assumes "net (requests w) (dataset_url d) [] = Inr data"
    and "link_href data ''latest_version'' = Inr fallback"
    and "link_href data ''editions'' = Inr eurl" and "truthy eurl"
    and "net (requests w + 1) (url_join [fmt eurl]) [] = Inr (JObj listing)"
    and "map_of listing ''items'' = Some (JArr items)" and "items \<noteq> []"
    and "no_edition_named preferred items"
  shows "fst (get_edition_url_03 net d preferred w) = Inr fallback \<and>
         fst (get_edition_url_04 net d preferred w) = Inr fallback \<and>
         (preferred = ''time-series'' \<longrightarrow>
            fst (get_latest_version_url net d w) = link_href_strict (last items) ''latest_version'')"
proof (intro conjI impI)
  show "fst (get_edition_url_03 net d preferred w) = Inr fallback"
    using assms
    by (simp add: get_edition_url_03_def requests_get_def Let_def scan_editions_03_no_match)
next
  have td: "truthy data" using assms(3,4) by (rule link_href_truthy)
  have tl: "listing \<noteq> []" using assms(6) by auto
  let ?w1 = "w\<lparr>requests := Suc (requests w)\<rparr>"
  have g1: "get_json net (dataset_url d) [] 3 w = (data, ?w1)"
    using assms(1) get_json_first [of net w "dataset_url d" "[]" data] by simp
  have g2: "get_json net (url_join [fmt eurl]) [] 3 ?w1 = (JObj listing, ?w1\<lparr>requests := Suc (Suc (requests w))\<rparr>)"
    using assms(5) get_json_first [of net ?w1 "url_join [fmt eurl]" "[]" "JObj listing"]
    by simp
  show "fst (get_edition_url_04 net d preferred w) = Inr fallback"
    using assms td tl
    by (simp add: get_edition_url_04_def g1 g2 Let_def scan_editions_04_no_match)
next
  assume p: "preferred = ''time-series''"
  obtain kvs where kvs: "data = JObj kvs"
    using assms(2) by (cases data) (simp_all add: link_href_def)
  obtain names where names: "edition_names items = Inr names"
    using edition_names_dicts [OF assms(8)] by blast
  show "fst (get_latest_version_url net d w) = link_href_strict (last items) ''latest_version''"
    using assms p kvs names
    by (simp add: get_latest_version_url_def requests_get_def Let_def scan_editions_02_no_match)
qed

lemma demo_no_match: "no_edition_named ''time-series'' [demo_edition ''2023'' ''E/2023/1'', demo_edition ''2024'' ''E/2024/3'']"
  by (simp add: no_edition_named_def demo_edition_def)

lemma dataset_url_demo: "dataset_url ''demo'' = [Text ''https://api.beta.ons.gov.uk/v1/datasets/demo'']"
  by (simp add: dataset_url_def ROOT_URL_def)

theorem resolver_no_match_witness:
  "fst (get_edition_url_03 demo_net ''demo'' ''time-series'' world0) = Inr (JStr ''D/latest'') \<and>
   fst (get_edition_url_04 demo_net ''demo'' ''time-series'' world0) = Inr (JStr ''D/latest'') \<and>
   fst (get_latest_version_url demo_net ''demo'' world0) = Inr (JStr ''E/2024/3'')"
  using resolver_no_match [of demo_net world0 "''demo''" demo_dataset "JStr ''D/latest''" "JStr ''E''"
      "[(''items'', JArr [demo_edition ''2023'' ''E/2023/1'', demo_edition ''2024'' ''E/2024/3''])]"
      "[demo_edition ''2023'' ''E/2023/1'', demo_edition ''2024'' ''E/2024/3'']" "''time-series''"]
    demo_no_match
  by (simp add: demo_net_def dataset_url_demo demo_dataset_def demo_editions_def link_href_def
      link_href_strict_def world0_def demo_edition_def)

text \<open>
  Claim C1 as stated: with a non-empty listing and no edition of the preferred name,
  the resolver returns the link of the last listed edition. For the catalogue \<open>demo_net\<close>
  that link is \<open>E/2024/3\<close>, and neither version of \<open>get_edition_url\<close> returns it.
\<close>

theorem get_edition_url_not_last_edition:
  "link_href_strict (last [demo_edition ''2023'' ''E/2023/1'', demo_edition ''2024'' ''E/2024/3''])
     ''latest_version'' = Inr (JStr ''E/2024/3'') \<and>
   fst (get_edition_url_03 demo_net ''demo'' ''time-series'' world0) \<noteq> Inr (JStr ''E/2024/3'') \<and>
   fst (get_edition_url_04 demo_net ''demo'' ''time-series'' world0) \<noteq> Inr (JStr ''E/2024/3'')"
  by code_simp

text \<open>
  Claim C9. In \<open>get_edition_url\<close> of 04\_batch\_download.py, three failed GETs of the
  dataset give \<open>None\<close>. When the dataset was fetched and names a true editions URL,
  three failed GETs of the editions listing do not fail the resolution: the function
  returns the dataset-level \<open>latest_version\<close> link. The third line of the example shows
  the edition that the same catalogue resolves to when the listing can be fetched.
\<close>

theorem get_edition_url_04_transport_failures:
  "(isl (net (requests w) (dataset_url d) []) \<and> isl (net (requests w + 1) (dataset_url d) []) \<and>
    isl (net (requests w + 2) (dataset_url d) [])
      \<longrightarrow> fst (get_edition_url_04 net d preferred w) = Inr JNull) \<and>
   (get_json net (dataset_url d) [] 3 w = (data, w1) \<and> truthy data \<and>
    link_href data ''latest_version'' = Inr fallback \<and>
    link_href data ''editions'' = Inr eurl \<and> truthy eurl \<and>
    isl (net (requests w1) (url_join [fmt eurl]) []) \<and>
    isl (net (requests w1 + 1) (url_join [fmt eurl]) []) \<and>
    isl (net (requests w1 + 2) (url_join [fmt eurl]) [])
      \<longrightarrow> fst (get_edition_url_04 net d preferred w) = Inr fallback)"
proof (intro conjI impI)
  assume "isl (net (requests w) (dataset_url d) []) \<and> isl (net (requests w + 1) (dataset_url d) []) \<and>
    isl (net (requests w + 2) (dataset_url d) [])"
  then obtain e1 e2 e3 where "net (requests w) (dataset_url d) [] = Inl e1"
    and "net (requests w + 1) (dataset_url d) [] = Inl e2"
    and "net (requests w + 2) (dataset_url d) [] = Inl e3"
    by (auto simp: isl_def)
  then have "fst (get_json net (dataset_url d) [] 3 w) = JNull"
    using get_json_failed [of net w "dataset_url d" "[]" e1 e2 e3] by simp
  then show "fst (get_edition_url_04 net d preferred w) = Inr JNull"
    by (simp add: get_edition_url_04_def Let_def)
next
  assume a: "get_json net (dataset_url d) [] 3 w = (data, w1) \<and> truthy data \<and>
    link_href data ''latest_version'' = Inr fallback \<and>
    link_href data ''editions'' = Inr eurl \<and> truthy eurl \<and>
    isl (net (requests w1) (url_join [fmt eurl]) []) \<and>
    isl (net (requests w1 + 1) (url_join [fmt eurl]) []) \<and>
    isl (net (requests w1 + 2) (url_join [fmt eurl]) [])"
  then obtain e1 e2 e3 where "net (requests w1) (url_join [fmt eurl]) [] = Inl e1"
    and "net (requests w1 + 1) (url_join [fmt eurl]) [] = Inl e2"
    and "net (requests w1 + 2) (url_join [fmt eurl]) [] = Inl e3"
    by (auto simp: isl_def)
  then have "fst (get_json net (url_join [fmt eurl]) [] 3 w1) = JNull"
    using get_json_failed [of net w1 "url_join [fmt eurl]" "[]" e1 e2 e3] by simp
  with a show "fst (get_edition_url_04 net d preferred w) = Inr fallback"
    by (simp add: get_edition_url_04_def Let_def)
qed

theorem get_edition_url_04_transport_failures_witness:
  "fst (get_edition_url_04 dead_net ''demo'' ''2023'' world0) = Inr JNull \<and>
   fst (get_edition_url_04 demo_net_no_listing ''demo'' ''2023'' world0) = Inr (JStr ''D/latest'') \<and>
   fst (get_edition_url_04 demo_net ''demo'' ''2023'' world0) = Inr (JStr ''E/2023/1'')"
proof -
  have g: "get_json demo_net_no_listing (dataset_url ''demo'') [] 3 world0
           = (demo_dataset, world0\<lparr>requests := 1\<rparr>)"
    using get_json_first [of demo_net_no_listing world0 "dataset_url ''demo''" "[]" demo_dataset]
    by (simp add: demo_net_no_listing_def world0_def)
  have a: "fst (get_edition_url_04 dead_net ''demo'' ''2023'' world0) = Inr JNull"
    using get_edition_url_04_transport_failures [of dead_net world0 "''demo''" "''2023''"]
    by (simp add: dead_net_def)
  have b: "fst (get_edition_url_04 demo_net_no_listing ''demo'' ''2023'' world0) = Inr (JStr ''D/latest'')"
    using get_edition_url_04_transport_failures [of demo_net_no_listing world0 "''demo''" "''2023''"
        demo_dataset "world0\<lparr>requests := 1\<rparr>" "JStr ''D/latest''" "JStr ''E''"] g
    by (simp add: demo_net_no_listing_def dataset_url_demo demo_dataset_def link_href_def)
  have c: "fst (get_edition_url_04 demo_net ''demo'' ''2023'' world0) = Inr (JStr ''E/2023/1'')"
    by code_simp
  from a b c show ?thesis by simp
qed

section \<open>Properties of get\_all\_datasets\<close>

lemma loop_step:
  assumes "net (requests w) datasets_url (page_params offset) = Inr data"
    and "dget data ''items'' (JArr []) = Inr (JArr xs)" and "xs \<noteq> []"
  shows "get_all_datasets_loop net datasets offset w =
         get_all_datasets_loop net (datasets @ xs) (offset + int (length xs)) (w\<lparr>requests := Suc (requests w)\<rparr>)"
  using assms by (subst get_all_datasets_loop.simps) (simp add: requests_get_def)

lemma loop_stop:
  assumes "net (requests w) datasets_url (page_params offset) = Inr data"
    and "dget data ''items'' (JArr []) = Inr items" and "\<not> truthy items"
  shows "get_all_datasets_loop net datasets offset w = Some (Inr datasets, w\<lparr>requests := Suc (requests w)\<rparr>)"
  using assms by (subst get_all_datasets_loop.simps) (simp add: requests_get_def)

lemma paged_server_page:
  "paged_server items cap n datasets_url (page_params (int off)) =
   Inr (JObj [(''items'', JArr (take (min 50 cap) (drop off items)))])"
  by (simp add: paged_server_def page_params_def)

lemma ceil_div_step:
  assumes "0 < P" and "P \<le> (m::nat)"
  shows "(m - P + P - 1) div P + 1 = (m + P - 1) div P"
proof -
  have a: "m + P - 1 = (m - 1) + P" using assms by simp
  have b: "((m - 1) + P) div P = (m - 1) div P + 1"
    using assms(1) by (subst div_add_self2) simp_all
  have c: "m - P + P - 1 = m - 1" using assms by simp
  show ?thesis unfolding a b c ..
qed

lemma ceil_div_zero:
  assumes "0 < (P::nat)"
  shows "(0 + P - 1) div P = 0"
  using assms by (intro div_less) simp

lemma ceil_div_small:
  assumes "0 < m" and "m < (P::nat)"
  shows "(m + P - 1) div P = 1"
proof -
  have a: "m + P - 1 = (m - 1) + P" using assms by simp
  have b: "((m - 1) + P) div P = (m - 1) div P + 1"
    using assms by (subst div_add_self2) simp_all
  have c: "(m - 1) div P = 0" using assms by (intro div_less) simp
  show ?thesis unfolding a b c by simp
qed

lemma paged_loop:
  assumes "0 < cap" and "off \<le> length items"
  shows "get_all_datasets_loop (paged_server items cap) ds (int off) w =
         Some (Inr (ds @ drop off items),
               w\<lparr>requests := requests w + ((length items - off + min 50 cap - 1) div min 50 cap + 1)\<rparr>)"
  using assms(2)
proof (induction "length items - off" arbitrary: off ds w rule: less_induct)
  case less
  let ?P = "min 50 cap"
  let ?page = "take ?P (drop off items)"
  let ?data = "JObj [(''items'', JArr ?page)]"
  have P: "0 < ?P" using assms(1) by simp
  have net: "paged_server items cap (requests w) datasets_url (page_params (int off)) = Inr ?data"
    by (rule paged_server_page)
  show ?case
  proof (cases "off = length items")
    case True
    then have "get_all_datasets_loop (paged_server items cap) ds (int off) w
               = Some (Inr ds, w\<lparr>requests := Suc (requests w)\<rparr>)"
      using net loop_stop [of "paged_server items cap" w "int off" ?data "JArr ?page" ds] by simp
    with True ceil_div_zero [OF P] show ?thesis by simp
  next
    case False
    with less.prems have lt: "off < length items" by simp
    let ?len = "length ?page"
    have len: "?len = min ?P (length items - off)" by simp
    have ne: "?page \<noteq> []" using lt P by auto
    let ?w1 = "w\<lparr>requests := Suc (requests w)\<rparr>"
    have step: "get_all_datasets_loop (paged_server items cap) ds (int off) w =
          get_all_datasets_loop (paged_server items cap) (ds @ ?page) (int (off + ?len)) ?w1"
      using net loop_step [of "paged_server items cap" w "int off" ?data ?page ds] ne by simp
    have lenpos: "0 < ?len" using ne by simp
    have le: "off + ?len \<le> length items" using lt by simp
    have dec: "length items - (off + ?len) < length items - off" using lt lenpos by linarith
    have IH: "get_all_datasets_loop (paged_server items cap) (ds @ ?page) (int (off + ?len)) ?w1 =
         Some (Inr ((ds @ ?page) @ drop (off + ?len) items),
               ?w1\<lparr>requests := requests ?w1 + ((length items - (off + ?len) + ?P - 1) div ?P + 1)\<rparr>)"
      using less.hyps [OF dec le] .
    have items_eq: "?page @ drop (off + ?len) items = drop off items"
    proof -
      have "drop (off + ?len) items = drop ?len (drop off items)" by (simp add: add.commute)
      also have "\<dots> = drop ?P (drop off items)" by (simp add: min_def)
      finally show ?thesis by (simp only: append_take_drop_id)
    qed
    have count: "Suc ((length items - (off + ?len) + ?P - 1) div ?P + 1)
                 = (length items - off + ?P - 1) div ?P + 1"
    proof (cases "?P \<le> length items - off")
      case True
      then have "?len = ?P" unfolding len by linarith
      then have "length items - (off + ?len) = (length items - off) - ?P" by simp
      then show ?thesis using ceil_div_step [OF P True] by simp
    next
      case False
      then have l: "?len = length items - off" unfolding len by linarith
      have "0 < length items - off" using lt by simp
      moreover have "length items - off < ?P" using False by linarith
      ultimately have "(length items - off + ?P - 1) div ?P = 1"
        by (rule ceil_div_small)
      moreover have "length items - (off + ?len) = 0" using l by simp
      ultimately show ?thesis using ceil_div_zero [OF P] by simp
    qed
    show ?thesis
      unfolding step IH using items_eq count by simp
  qed
qed


text \<open>
  Claim C6. Against a simulated listing of \<open>N = length items\<close> items with page size
  \<open>P = min 50 cap\<close> (the server fills every page but the last), \<open>get_all_datasets\<close>
  returns, and returns exactly the \<open>N\<close> items in order after \<open>ceil(N/P) + 1\<close> GETs,
  written \<open>(N + P - 1) div P + 1\<close>. For any network: a page whose item list is not
  empty, however short, makes the loop go on with the offset advanced by the length of
  the page; a page whose item list is empty ends it.
\<close>

theorem get_all_datasets_paged:
  "(0 < cap \<longrightarrow>
      get_all_datasets (paged_server items cap) w =
        Some (Inr items,
              w\<lparr>requests := requests w + ((length items + min 50 cap - 1) div min 50 cap + 1)\<rparr>)) \<and>
   (net (requests w) datasets_url (page_params offset) = Inr data \<and>
    dget data ''items'' (JArr []) = Inr (JArr xs) \<and> xs \<noteq> [] \<longrightarrow>
      get_all_datasets_loop net datasets offset w =
        get_all_datasets_loop net (datasets @ xs) (offset + int (length xs))
          (w\<lparr>requests := Suc (requests w)\<rparr>)) \<and>
   (net (requests w) datasets_url (page_params offset) = Inr data \<and>
    dget data ''items'' (JArr []) = Inr (JArr []) \<longrightarrow>
      get_all_datasets_loop net datasets offset w =
        Some (Inr datasets, w\<lparr>requests := Suc (requests w)\<rparr>))"
proof (intro conjI impI)
  assume "0 < cap"
  then show "get_all_datasets (paged_server items cap) w =
        Some (Inr items,
              w\<lparr>requests := requests w + ((length items + min 50 cap - 1) div min 50 cap + 1)\<rparr>)"
    using paged_loop [of cap 0 items "[]" w] by (simp add: get_all_datasets_def)
next
  assume "net (requests w) datasets_url (page_params offset) = Inr data \<and>
    dget data ''items'' (JArr []) = Inr (JArr xs) \<and> xs \<noteq> []"
  then show "get_all_datasets_loop net datasets offset w =
        get_all_datasets_loop net (datasets @ xs) (offset + int (length xs))
          (w\<lparr>requests := Suc (requests w)\<rparr>)"
    using loop_step [of net w offset data xs datasets] by simp
next
  assume "net (requests w) datasets_url (page_params offset) = Inr data \<and>
    dget data ''items'' (JArr []) = Inr (JArr [])"
  then show "get_all_datasets_loop net datasets offset w =
        Some (Inr datasets, w\<lparr>requests := Suc (requests w)\<rparr>)"
    using loop_stop [of net w offset data "JArr []" datasets] by simp
qed

theorem get_all_datasets_paged_witness:
  "get_all_datasets (paged_server [JNum 1, JNum 2, JNum 3] 2) world0 =
     Some (Inr [JNum 1, JNum 2, JNum 3], \<lparr>requests = 3, sleeps = []\<rparr>) \<and>
   get_all_datasets_loop (paged_server [JNum 1, JNum 2, JNum 3] 2) [JNum 1, JNum 2] 2
       \<lparr>requests = 1, sleeps = []\<rparr> =
     get_all_datasets_loop (paged_server [JNum 1, JNum 2, JNum 3] 2) [JNum 1, JNum 2, JNum 3] 3
       \<lparr>requests = 2, sleeps = []\<rparr> \<and>
   get_all_datasets_loop (paged_server [JNum 1, JNum 2, JNum 3] 2) [JNum 1, JNum 2, JNum 3] 3
       \<lparr>requests = 2, sleeps = []\<rparr> =
     Some (Inr [JNum 1, JNum 2, JNum 3], \<lparr>requests = 3, sleeps = []\<rparr>)"
proof -
  let ?net = "paged_server [JNum 1, JNum 2, JNum 3] 2"
  have two: "Suc 1 = 2" and three: "Suc 2 = 3" by simp_all
  have a: "get_all_datasets ?net world0 =
     Some (Inr [JNum 1, JNum 2, JNum 3], \<lparr>requests = 3, sleeps = []\<rparr>)"
    using get_all_datasets_paged [of 2 "[JNum 1, JNum 2, JNum 3]" world0]
    by (simp add: world0_def)
  have b: "get_all_datasets_loop ?net [JNum 1, JNum 2] 2 \<lparr>requests = 1, sleeps = []\<rparr> =
     get_all_datasets_loop ?net [JNum 1, JNum 2, JNum 3] 3 \<lparr>requests = 2, sleeps = []\<rparr>"
    using get_all_datasets_paged [of 2 "[]" "\<lparr>requests = 1, sleeps = []\<rparr>" ?net 2
        "JObj [(''items'', JArr [JNum 3])]" "[JNum 3]" "[JNum 1, JNum 2]"]
    by (simp add: paged_server_def page_params_def two del: One_nat_def)
  have c: "get_all_datasets_loop ?net [JNum 1, JNum 2, JNum 3] 3 \<lparr>requests = 2, sleeps = []\<rparr> =
     Some (Inr [JNum 1, JNum 2, JNum 3], \<lparr>requests = 3, sleeps = []\<rparr>)"
    using get_all_datasets_paged [of 2 "[]" "\<lparr>requests = 2, sleeps = []\<rparr>" ?net 3
        "JObj [(''items'', JArr [])]" "[]" "[JNum 1, JNum 2, JNum 3]"]
    by (simp add: paged_server_def page_params_def three)
  from a b c show ?thesis by blast
qed

section \<open>Properties of the observation fetchers\<close>

lemma get_observations_rows:
  assumes "net (requests w) (observations_url u) ps = Inr (observations_body obs)"
    and "collect_rows obs = Inr rows"
  shows "fst (get_observations pd net u ps w) = frame_04 pd rows"
  using assms get_json_first [of net w "observations_url u" ps "observations_body obs"]
  by (simp add: get_observations_def Let_def observations_body_def)

lemma download_observations_rows:
  assumes "net (requests w) (observations_url u) ps = Inr (observations_body obs)"
    and "collect_rows obs = Inr rows"
  shows "fst (download_observations pd net u ps w) = frame_03 pd rows"
  using assms by (simp add: download_observations_def requests_get_def Let_def observations_body_def)

text \<open>
  Claim C3, amended. \<open>get_observations\<close> does not tell an HTTP failure from a valid
  empty result: after three failed GETs it returns the empty DataFrame, and it returns the
  empty DataFrame as well when the API answers with no observation.
\<close>

theorem get_observations_failure_is_empty:
  "(isl (net (requests w) (observations_url u) ps) \<and>
    isl (net (requests w + 1) (observations_url u) ps) \<and>
    isl (net (requests w + 2) (observations_url u) ps)
      \<longrightarrow> fst (get_observations pd net u ps w) = Inr []) \<and>
   (fst (get_json net (observations_url u) ps 3 w) = data \<and>
    dget data ''observations'' (JArr []) = Inr (JArr [])
      \<longrightarrow> fst (get_observations pd net u ps w) = Inr [])"
proof (intro conjI impI)
  assume "isl (net (requests w) (observations_url u) ps) \<and>
    isl (net (requests w + 1) (observations_url u) ps) \<and>
    isl (net (requests w + 2) (observations_url u) ps)"
  then obtain e1 e2 e3 where "net (requests w) (observations_url u) ps = Inl e1"
    and "net (requests w + 1) (observations_url u) ps = Inl e2"
    and "net (requests w + 2) (observations_url u) ps = Inl e3"
    by (auto simp: isl_def)
  then have "fst (get_json net (observations_url u) ps 3 w) = JNull"
    using get_json_failed [of net w "observations_url u" ps e1 e2 e3] by simp
  then show "fst (get_observations pd net u ps w) = Inr []"
    by (simp add: get_observations_def Let_def)
next
  assume "fst (get_json net (observations_url u) ps 3 w) = data \<and>
    dget data ''observations'' (JArr []) = Inr (JArr [])"
  then show "fst (get_observations pd net u ps w) = Inr []"
    by (auto simp: get_observations_def Let_def frame_04_def)
qed

theorem get_observations_failure_is_empty_witness:
  "fst (get_observations ref_pandas dead_net ''V'' [(''time'', JStr ''*'')] world0) = Inr [] \<and>
   fst (get_observations ref_pandas (const_net (observations_body [])) ''V'' [(''time'', JStr ''*'')] world0) = Inr []"
proof -
  have g: "fst (get_json (const_net (observations_body [])) (observations_url ''V'') [(''time'', JStr ''*'')] 3 world0)
           = observations_body []"
    using get_json_first [of "const_net (observations_body [])" world0 "observations_url ''V''"
        "[(''time'', JStr ''*'')]" "observations_body []"]
    by (simp add: const_net_def)
  have a: "fst (get_observations ref_pandas dead_net ''V'' [(''time'', JStr ''*'')] world0) = Inr []"
    using get_observations_failure_is_empty [where net = dead_net and w = world0 and u = "''V''"
        and ps = "[(''time'', JStr ''*'')]" and pd = ref_pandas]
    by (simp add: dead_net_def)
  have b: "fst (get_observations ref_pandas (const_net (observations_body [])) ''V'' [(''time'', JStr ''*'')] world0) = Inr []"
    using get_observations_failure_is_empty [where net = "const_net (observations_body [])"
        and w = world0 and u = "''V''" and ps = "[(''time'', JStr ''*'')]"
        and data = "observations_body []" and pd = ref_pandas] g
    by (simp add: observations_body_def)
  from a b show ?thesis by simp
qed

text \<open>
  Claim C3 as stated: the value returned after an HTTP failure is distinct from the value
  returned for a successful answer with zero observations. On a network that never
  answers and on a server that answers \<open>{"observations": []}\<close> the two values are equal.
\<close>

theorem get_observations_failure_not_distinct:
  "fst (get_observations ref_pandas dead_net ''V'' [(''time'', JStr ''*'')] world0) =
   fst (get_observations ref_pandas (const_net (observations_body [])) ''V'' [(''time'', JStr ''*'')] world0)"
proof -
  have "fst (get_observations ref_pandas dead_net ''V'' [(''time'', JStr ''*'')] world0) = Inr []"
    using get_json_failed [of dead_net world0 "observations_url ''V''" "[(''time'', JStr ''*'')]"
        HTTPError HTTPError HTTPError]
    by (simp add: get_observations_def Let_def dead_net_def)
  moreover have "fst (get_observations ref_pandas (const_net (observations_body [])) ''V''
       [(''time'', JStr ''*'')] world0) = Inr []"
    using get_observations_rows [of "const_net (observations_body [])" world0 "''V''"
        "[(''time'', JStr ''*'')]" "[]" "[]" ref_pandas]
    by (simp add: const_net_def frame_04_def)
  ultimately show ?thesis by simp
qed

lemma time_dim_of_dict:
  assumes "dget obs ''dimensions'' (JObj []) = Inr (JObj dims)"
  shows "time_dim_of obs = Inr (if truthy (jget dims ''Time'') then jget dims ''Time'' else jget dims ''time'')"
  using assms by (simp add: time_dim_of_def jget_def)

text \<open>
  Claim C4, amended. The loop looks the temporal sub-object up under the two keys
  \<open>Time\<close> and \<open>time\<close> only (the value under \<open>Time\<close> if it is true, else the value
  under \<open>time\<close>). For an observation whose \<open>dimensions\<close> is a dict: when neither value
  is true the observation is dropped, in particular when neither key is present, whatever
  other keys there are; when the chosen value is a non-empty dict the observation gives
  the next row.
\<close>

theorem collect_rows_time_keys:
  assumes "dget obs ''dimensions'' (JObj []) = Inr (JObj dims)"
  shows "(\<not> truthy (jget dims ''Time'') \<and> \<not> truthy (jget dims ''time'')
            \<longrightarrow> collect_rows (obs # rest) = collect_rows rest) \<and>
         (map_of dims ''Time'' = None \<and> map_of dims ''time'' = None
            \<longrightarrow> collect_rows (obs # rest) = collect_rows rest) \<and>
         ((if truthy (jget dims ''Time'') then jget dims ''Time'' else jget dims ''time'') = JObj td \<and>
          td \<noteq> [] \<and> collect_rows rest = Inr rows
            \<longrightarrow> collect_rows (obs # rest) =
                  Inr (\<lparr>period = (case map_of td ''id'' of Some v \<Rightarrow> v | None \<Rightarrow> JStr []),
                         period_label = (case map_of td ''label'' of Some v \<Rightarrow> v | None \<Rightarrow> JStr []),
                         obs_value = (case obs of JObj kvs \<Rightarrow> jget kvs ''observation'' | _ \<Rightarrow> JNull)\<rparr> # rows))"
proof (intro conjI impI)
  assume "\<not> truthy (jget dims ''Time'') \<and> \<not> truthy (jget dims ''time'')"
  then show "collect_rows (obs # rest) = collect_rows rest"
    by (simp add: time_dim_of_dict [OF assms])
next
  assume "map_of dims ''Time'' = None \<and> map_of dims ''time'' = None"
  then show "collect_rows (obs # rest) = collect_rows rest"
    by (simp add: time_dim_of_dict [OF assms] jget_def)
next
  assume a: "(if truthy (jget dims ''Time'') then jget dims ''Time'' else jget dims ''time'') = JObj td \<and>
          td \<noteq> [] \<and> collect_rows rest = Inr rows"
  obtain kvs where kvs: "obs = JObj kvs" using assms by (cases obs) simp_all
  have t: "time_dim_of (JObj kvs) = Inr (JObj td)"
    using a time_dim_of_dict [OF assms] by (simp add: kvs)
  show "collect_rows (obs # rest) =
                  Inr (\<lparr>period = (case map_of td ''id'' of Some v \<Rightarrow> v | None \<Rightarrow> JStr []),
                         period_label = (case map_of td ''label'' of Some v \<Rightarrow> v | None \<Rightarrow> JStr []),
                         obs_value = (case obs of JObj kvs \<Rightarrow> jget kvs ''observation'' | _ \<Rightarrow> JNull)\<rparr> # rows)"
    using a by (simp add: t kvs jget_def)
qed

theorem collect_rows_time_keys_witness:
  "collect_rows [observation ''TIME'' ''d'' ''Jan-24'' ''7'', observation ''time'' ''a'' ''Dec-23'' ''1'']
   = Inr [\<lparr>period = JStr ''a'', period_label = JStr ''Dec-23'', obs_value = JStr ''1''\<rparr>]"
proof -
  have a: "collect_rows [observation ''time'' ''a'' ''Dec-23'' ''1'']
      = Inr [\<lparr>period = JStr ''a'', period_label = JStr ''Dec-23'', obs_value = JStr ''1''\<rparr>]"
    using collect_rows_time_keys [of "observation ''time'' ''a'' ''Dec-23'' ''1''"
        "[(''time'', JObj [(''id'', JStr ''a''), (''label'', JStr ''Dec-23'')])]" "[]"
        "[(''id'', JStr ''a''), (''label'', JStr ''Dec-23'')]" "[]"]
    by (simp add: observation_def jget_def)
  have b: "collect_rows (observation ''TIME'' ''d'' ''Jan-24'' ''7'' # [observation ''time'' ''a'' ''Dec-23'' ''1''])
     = collect_rows [observation ''time'' ''a'' ''Dec-23'' ''1'']"
    using collect_rows_time_keys [of "observation ''TIME'' ''d'' ''Jan-24'' ''7''"
        "[(''TIME'', JObj [(''id'', JStr ''d''), (''label'', JStr ''Jan-24'')])]"
        "[observation ''time'' ''a'' ''Dec-23'' ''1'']"]
    by (simp add: observation_def jget_def)
  from a b show ?thesis by simp
qed

lemma row_time_uppercase: "collect_rows [observation ''TIME'' ''d'' ''Jan-24'' ''7''] = Inr []"
  by (simp add: observation_def time_dim_of_def)

lemma row_time_capitalised:
  "collect_rows [observation ''Time'' ''d'' ''Jan-24'' ''7''] =
   Inr [\<lparr>period = JStr ''d'', period_label = JStr ''Jan-24'', obs_value = JStr ''7''\<rparr>]"
  by (simp add: observation_def time_dim_of_def)

lemma frame_04_one_row:
  "frame_04 ref_pandas [\<lparr>period = JStr ''d'', period_label = JStr ''Jan-24'', obs_value = JStr ''7''\<rparr>]
   = Inr [example_row ''d'' ''Jan-24'' 7]"
  by code_simp

text \<open>
  Claim C4 as stated: the lookup of \<open>time\<close> ignores case, so that a sub-object under
  \<open>TIME\<close> is found. An observation whose temporal sub-object is under \<open>TIME\<close> is
  dropped by both scripts; the same observation under \<open>Time\<close> is kept.
\<close>

theorem time_key_uppercase_dropped:
  "collect_rows [observation ''TIME'' ''d'' ''Jan-24'' ''7''] = Inr [] \<and>
   fst (get_observations ref_pandas
          (const_net (observations_body [observation ''TIME'' ''d'' ''Jan-24'' ''7'']))
          ''V'' [(''time'', JStr ''*'')] world0) = Inr [] \<and>
   fst (download_observations ref_pandas
          (const_net (observations_body [observation ''TIME'' ''d'' ''Jan-24'' ''7'']))
          ''V'' [(''time'', JStr ''*'')] world0) = Inr [] \<and>
   fst (get_observations ref_pandas
          (const_net (observations_body [observation ''Time'' ''d'' ''Jan-24'' ''7'']))
          ''V'' [(''time'', JStr ''*'')] world0) = Inr [example_row ''d'' ''Jan-24'' 7]"
proof -
  have a: "fst (get_observations ref_pandas
          (const_net (observations_body [observation ''TIME'' ''d'' ''Jan-24'' ''7'']))
          ''V'' [(''time'', JStr ''*'')] world0) = Inr []"
    by (simp add: get_observations_rows [OF _ row_time_uppercase] const_net_def frame_04_def)
  have b: "fst (download_observations ref_pandas
          (const_net (observations_body [observation ''TIME'' ''d'' ''Jan-24'' ''7'']))
          ''V'' [(''time'', JStr ''*'')] world0) = Inr []"
    by (simp add: download_observations_rows [OF _ row_time_uppercase] const_net_def frame_03_def)
  have c: "fst (get_observations ref_pandas
          (const_net (observations_body [observation ''Time'' ''d'' ''Jan-24'' ''7'']))
          ''V'' [(''time'', JStr ''*'')] world0) = Inr [example_row ''d'' ''Jan-24'' 7]"
    by (simp only: get_observations_rows [OF _ row_time_capitalised] const_net_def frame_04_one_row)
  show ?thesis
    by (intro conjI row_time_uppercase a b c)
qed

lemma mset_sort_values_by: "mset (sort_values_by key rows) = mset rows"
proof -
  have "mset (filter (\<lambda>r. key r \<noteq> None) rows) + mset (filter (\<lambda>r. key r = None) rows) = mset rows"
    by (induction rows) simp_all
  then show ?thesis by (simp add: sort_values_by_def)
qed

lemma sorted_keys_na_last:
  assumes "\<forall>r \<in> set xs. key r \<noteq> None" and "sorted (map (\<lambda>r. the (key r)) xs)"
  shows "sorted_wrt na_last_le (map key xs)"
  using assms
proof (induction xs)
  case Nil
  show ?case by simp
next
  case (Cons x xs)
  have "na_last_le (key x) (key r)" if "r \<in> set xs" for r
  proof -
    have "key x \<noteq> None" and "key r \<noteq> None" using Cons.prems(1) that by simp_all
    then obtain a b where a: "key x = Some a" and b: "key r = Some b" by blast
    have "the (key x) \<le> the (key r)" using Cons.prems(2) that by simp
    then show ?thesis by (simp add: na_last_le_def a b)
  qed
  moreover have "sorted_wrt na_last_le (map key xs)"
    using Cons by simp
  ultimately show ?case by simp
qed

lemma missing_keys_na_last:
  assumes "\<forall>r \<in> set xs. key r = None"
  shows "sorted_wrt na_last_le (map key xs)"
  using assms by (induction xs) (auto simp: na_last_le_def)

lemma sorted_sort_values_by: "sorted_wrt na_last_le (map key (sort_values_by key rows))"
proof -
  let ?A = "sort_key (\<lambda>r. the (key r)) (filter (\<lambda>r. key r \<noteq> None) rows)"
  let ?B = "filter (\<lambda>r. key r = None) rows"
  have A: "sorted_wrt na_last_le (map key ?A)"
    by (rule sorted_keys_na_last) (simp_all add: sorted_sort_key)
  have B: "sorted_wrt na_last_le (map key ?B)"
    by (rule missing_keys_na_last) simp
  have AB: "\<forall>a \<in> set (map key ?A). \<forall>b \<in> set (map key ?B). na_last_le a b"
    by (auto simp: na_last_le_def)
  show ?thesis
    unfolding sort_values_by_def map_append sorted_wrt_append
    by (intro conjI A B AB)
qed

lemma emap_all_ok:
  assumes "\<forall>x \<in> set xs. \<not> isl (f x)"
  shows "\<exists>ys. emap f xs = Inr ys"
  using assms by (induction xs) (auto split: sum.splits)

lemma emap_Inr_all_ok:
  "emap f xs = Inr ys \<Longrightarrow> \<forall>x \<in> set xs. \<not> isl (f x)"
  by (induction xs arbitrary: ys) (auto split: sum.splits)

lemma emap_some_raises:
  assumes "\<exists>x \<in> set xs. isl (f x)"
  shows "\<exists>e. emap f xs = Inl e"
proof (cases "emap f xs")
  case (Inl e)
  then show ?thesis by blast
next
  case (Inr ys)
  with assms emap_Inr_all_ok [of f xs ys] show ?thesis by blast
qed

lemma sort_values_period_text:
  assumes "\<forall>r \<in> set rows. is_text_or_none (period r)"
  shows "sort_values_period rows = Inr (sort_values_by period_key rows)"
proof -
  have "\<forall>r \<in> set rows. \<not> isl (period_cell (period r))"
  proof
    fix r assume "r \<in> set rows"
    with assms have "is_text_or_none (period r)" by blast
    then show "\<not> isl (period_cell (period r))" by (cases "period r") simp_all
  qed
  then obtain cells where "emap (\<lambda>r. period_cell (period r)) rows = Inr cells"
    using emap_all_ok [of rows "\<lambda>r. period_cell (period r)"] by blast
  then show ?thesis by (simp add: sort_values_period_def)
qed

lemma sort_values_by_no_keys:
  assumes "\<forall>r \<in> set rows. key r = None"
  shows "sort_values_by key rows = rows"
proof -
  have "filter (\<lambda>r. key r \<noteq> None) rows = []" using assms by (simp add: filter_empty_conv)
  moreover have "filter (\<lambda>r. key r = None) rows = rows" using assms by (simp add: filter_id_conv)
  ultimately show ?thesis by (simp add: sort_values_by_def)
qed

text \<open>
  In \<open>download_observations\<close> the branch taken when the Mon-YY parse of the column does
  not raise has no test for a date. When that parse gives NaT for every label (empty or
  missing labels), the rows stay as they came, whatever their period ids are;
  \<open>get_observations\<close> orders the same rows by period id.
\<close>

lemma order_rows_03_column_without_dates:
  assumes "\<forall>r \<in> set rows. to_datetime_b_y pd (period_label r) = Inr None"
  shows "order_rows_03 pd rows = Inr rows"
proof -
  have "\<forall>r \<in> set rows. \<not> isl (to_datetime_b_y pd (period_label r))" using assms by simp
  then obtain parsed where "emap (\<lambda>r. to_datetime_b_y pd (period_label r)) rows = Inr parsed"
    using emap_all_ok [of rows "\<lambda>r. to_datetime_b_y pd (period_label r)"] by blast
  moreover have "sort_values_by (\<lambda>r. parsed_b_y pd (period_label r)) rows = rows"
    using assms by (intro sort_values_by_no_keys) (simp add: parsed_b_y_def)
  ultimately show ?thesis by (simp add: order_rows_03_def)
qed

lemma order_rows_03_empty_labels:
  "order_rows_03 ref_pandas [example_row ''c'' [] 3, example_row ''a'' [] 1, example_row ''b'' [] 2]
     = Inr [example_row ''c'' [] 3, example_row ''a'' [] 1, example_row ''b'' [] 2] \<and>
   order_rows_04 ref_pandas [example_row ''c'' [] 3, example_row ''a'' [] 1, example_row ''b'' [] 2]
     = Inr [example_row ''a'' [] 1, example_row ''b'' [] 2, example_row ''c'' [] 3]"
  by code_simp

text \<open>
  Claim C2, amended. The sort key is chosen once for the series, not the same way for
  every item, and the result always holds the same rows.
  In \<open>get_observations\<close> each label is parsed on its own (Mon-YY, else the permissive
  parse, else NaT): when at least one label has a date, all rows are ordered by their
  dates, the rows without a date after all the others; when no label has a date (the
  period ids being strings or missing), all rows are ordered by the raw period id.
  In \<open>download_observations\<close>: when no label raises under the Mon-YY parse of the
  column, all rows are ordered by the dates of that parse, the rows without a date after
  all the others; when some label raises under it and at least one label has a date under
  the permissive parse (failures turned into NaT), all rows are ordered by the dates of
  the permissive parse, the rows without a date after all the others; the rows are
  ordered by the raw period id only when some label raises under the Mon-YY parse and no
  label has a date under the permissive parse (the period ids being strings or missing).
\<close>

theorem order_rows_one_key:
  fixes pd :: "('n, 't::linorder) pandas" and rows :: "'v row list"
  shows
  "((\<exists>r \<in> set rows. parse_period pd (period_label r) \<noteq> None) \<longrightarrow>
      (\<exists>out. order_rows_04 pd rows = Inr out \<and> mset out = mset rows \<and>
         sorted_wrt na_last_le (map (\<lambda>r. parse_period pd (period_label r)) out))) \<and>
   ((\<forall>r \<in> set rows. parse_period pd (period_label r) = None \<and> is_text_or_none (period r)) \<longrightarrow>
      (\<exists>out. order_rows_04 pd rows = Inr out \<and> mset out = mset rows \<and>
         sorted_wrt na_last_le (map period_key out))) \<and>
   ((\<forall>r \<in> set rows. \<not> isl (to_datetime_b_y pd (period_label r))) \<longrightarrow>
      (\<exists>out. order_rows_03 pd rows = Inr out \<and> mset out = mset rows \<and>
         sorted_wrt na_last_le (map (\<lambda>r. parsed_b_y pd (period_label r)) out))) \<and>
   ((\<exists>r \<in> set rows. isl (to_datetime_b_y pd (period_label r))) \<and>
    (\<exists>r \<in> set rows. coerce_mixed pd (period_label r) \<noteq> None) \<longrightarrow>
      (\<exists>out. order_rows_03 pd rows = Inr out \<and> mset out = mset rows \<and>
         sorted_wrt na_last_le (map (\<lambda>r. coerce_mixed pd (period_label r)) out))) \<and>
   ((\<exists>r \<in> set rows. isl (to_datetime_b_y pd (period_label r))) \<and>
    (\<forall>r \<in> set rows. coerce_mixed pd (period_label r) = None \<and> is_text_or_none (period r)) \<longrightarrow>
      (\<exists>out. order_rows_03 pd rows = Inr out \<and> mset out = mset rows \<and>
         sorted_wrt na_last_le (map period_key out)))"
proof (intro conjI impI)
  assume "\<exists>r \<in> set rows. parse_period pd (period_label r) \<noteq> None"
  then have "order_rows_04 pd rows = Inr (sort_values_by (\<lambda>r. parse_period pd (period_label r)) rows)"
    by (simp add: order_rows_04_def)
  then show "\<exists>out. order_rows_04 pd rows = Inr out \<and> mset out = mset rows \<and>
         sorted_wrt na_last_le (map (\<lambda>r. parse_period pd (period_label r)) out)"
    by (simp add: mset_sort_values_by sorted_sort_values_by)
next
  assume a: "\<forall>r \<in> set rows. parse_period pd (period_label r) = None \<and> is_text_or_none (period r)"
  then have "order_rows_04 pd rows = sort_values_period rows"
    by (simp add: order_rows_04_def)
  also have "\<dots> = Inr (sort_values_by period_key rows)"
    using a by (intro sort_values_period_text) blast
  finally show "\<exists>out. order_rows_04 pd rows = Inr out \<and> mset out = mset rows \<and>
         sorted_wrt na_last_le (map period_key out)"
    by (simp add: mset_sort_values_by sorted_sort_values_by)
next
  assume "\<forall>r \<in> set rows. \<not> isl (to_datetime_b_y pd (period_label r))"
  then obtain parsed where "emap (\<lambda>r. to_datetime_b_y pd (period_label r)) rows = Inr parsed"
    using emap_all_ok [of rows "\<lambda>r. to_datetime_b_y pd (period_label r)"] by blast
  then have "order_rows_03 pd rows = Inr (sort_values_by (\<lambda>r. parsed_b_y pd (period_label r)) rows)"
    by (simp add: order_rows_03_def)
  then show "\<exists>out. order_rows_03 pd rows = Inr out \<and> mset out = mset rows \<and>
         sorted_wrt na_last_le (map (\<lambda>r. parsed_b_y pd (period_label r)) out)"
    by (simp add: mset_sort_values_by sorted_sort_values_by)
next
  assume a: "(\<exists>r \<in> set rows. isl (to_datetime_b_y pd (period_label r))) \<and>
    (\<exists>r \<in> set rows. coerce_mixed pd (period_label r) \<noteq> None)"
  then obtain e where "emap (\<lambda>r. to_datetime_b_y pd (period_label r)) rows = Inl e"
    using emap_some_raises [of rows "\<lambda>r. to_datetime_b_y pd (period_label r)"] by blast
  with a have "order_rows_03 pd rows = Inr (sort_values_by (\<lambda>r. coerce_mixed pd (period_label r)) rows)"
    by (simp add: order_rows_03_def)
  then show "\<exists>out. order_rows_03 pd rows = Inr out \<and> mset out = mset rows \<and>
         sorted_wrt na_last_le (map (\<lambda>r. coerce_mixed pd (period_label r)) out)"
    by (simp add: mset_sort_values_by sorted_sort_values_by)
next
  assume a: "(\<exists>r \<in> set rows. isl (to_datetime_b_y pd (period_label r))) \<and>
    (\<forall>r \<in> set rows. coerce_mixed pd (period_label r) = None \<and> is_text_or_none (period r))"
  then obtain e where "emap (\<lambda>r. to_datetime_b_y pd (period_label r)) rows = Inl e"
    using emap_some_raises [of rows "\<lambda>r. to_datetime_b_y pd (period_label r)"] by blast
  moreover have "sort_values_period rows = Inr (sort_values_by period_key rows)"
    using a by (intro sort_values_period_text) blast
  ultimately have "order_rows_03 pd rows = Inr (sort_values_by period_key rows)"
    using a by (simp add: order_rows_03_def)
  then show "\<exists>out. order_rows_03 pd rows = Inr out \<and> mset out = mset rows \<and>
         sorted_wrt na_last_le (map period_key out)"
    by (simp add: mset_sort_values_by sorted_sort_values_by)
qed


theorem order_rows_one_key_witness:
  "(\<exists>out. order_rows_04 ref_pandas
            [example_row ''c'' ''Feb-24'' 3, example_row ''a'' ''zzz'' 1, example_row ''b'' ''Dec-23'' 2] = Inr out \<and>
          mset out = mset [example_row ''c'' ''Feb-24'' 3, example_row ''a'' ''zzz'' 1, example_row ''b'' ''Dec-23'' 2] \<and>
          sorted_wrt na_last_le (map (\<lambda>r. parse_period ref_pandas (period_label r)) out)) \<and>
   (\<exists>out. order_rows_04 ref_pandas
            [example_row ''c'' ''x'' 3, example_row ''a'' ''zzz'' 1, example_row ''b'' ''y'' 2] = Inr out \<and>
          mset out = mset [example_row ''c'' ''x'' 3, example_row ''a'' ''zzz'' 1, example_row ''b'' ''y'' 2] \<and>
          sorted_wrt na_last_le (map period_key out)) \<and>
   (\<exists>out. order_rows_03 ref_pandas
            [example_row ''c'' ''Jan-24'' 3, example_row ''a'' ''Dec-23'' 1, example_row ''b'' ''Feb-24'' 2] = Inr out \<and>
          mset out = mset [example_row ''c'' ''Jan-24'' 3, example_row ''a'' ''Dec-23'' 1, example_row ''b'' ''Feb-24'' 2] \<and>
          sorted_wrt na_last_le (map (\<lambda>r. parsed_b_y ref_pandas (period_label r)) out)) \<and>
   (\<exists>out. order_rows_03 ref_pandas
            [example_row ''c'' ''2024'' 3, example_row ''a'' ''zzz'' 1, example_row ''b'' ''2023'' 2] = Inr out \<and>
          mset out = mset [example_row ''c'' ''2024'' 3, example_row ''a'' ''zzz'' 1, example_row ''b'' ''2023'' 2] \<and>
          sorted_wrt na_last_le (map (\<lambda>r. coerce_mixed ref_pandas (period_label r)) out)) \<and>
   (\<exists>out. order_rows_03 ref_pandas
            [example_row ''c'' ''x'' 3, example_row ''a'' ''zzz'' 1, example_row ''b'' ''y'' 2] = Inr out \<and>
          mset out = mset [example_row ''c'' ''x'' 3, example_row ''a'' ''zzz'' 1, example_row ''b'' ''y'' 2] \<and>
          sorted_wrt na_last_le (map period_key out))"
proof -
  let ?A = "[example_row ''c'' ''Feb-24'' 3, example_row ''a'' ''zzz'' 1, example_row ''b'' ''Dec-23'' 2]"
  let ?B = "[example_row ''c'' ''x'' 3, example_row ''a'' ''zzz'' 1, example_row ''b'' ''y'' 2]"
  let ?C = "[example_row ''c'' ''Jan-24'' 3, example_row ''a'' ''Dec-23'' 1, example_row ''b'' ''Feb-24'' 2]"
  let ?D = "[example_row ''c'' ''2024'' 3, example_row ''a'' ''zzz'' 1, example_row ''b'' ''2023'' 2]"
  have hA: "\<exists>r \<in> set ?A. parse_period ref_pandas (period_label r) \<noteq> None"
    by code_simp
  have hB: "\<forall>r \<in> set ?B. parse_period ref_pandas (period_label r) = None \<and> is_text_or_none (period r)"
    by code_simp
  have hC: "\<forall>r \<in> set ?C. \<not> isl (to_datetime_b_y ref_pandas (period_label r))"
    by code_simp
  have hD: "(\<exists>r \<in> set ?D. isl (to_datetime_b_y ref_pandas (period_label r))) \<and>
    (\<exists>r \<in> set ?D. coerce_mixed ref_pandas (period_label r) \<noteq> None)"
    by code_simp
  have hE: "(\<exists>r \<in> set ?B. isl (to_datetime_b_y ref_pandas (period_label r))) \<and>
    (\<forall>r \<in> set ?B. coerce_mixed ref_pandas (period_label r) = None \<and> is_text_or_none (period r))"
    by code_simp
  note tA = order_rows_one_key [of ?A ref_pandas]
  note tB = order_rows_one_key [of ?B ref_pandas]
  note tC = order_rows_one_key [of ?C ref_pandas]
  note tD = order_rows_one_key [of ?D ref_pandas]
  note c1 = tA [THEN conjunct1, THEN mp, OF hA]
  note c2 = tB [THEN conjunct2, THEN conjunct1, THEN mp, OF hB]
  note c3 = tC [THEN conjunct2, THEN conjunct2, THEN conjunct1, THEN mp, OF hC]
  note c4 = tD [THEN conjunct2, THEN conjunct2, THEN conjunct2, THEN conjunct1, THEN mp, OF hD]
  note c5 = tB [THEN conjunct2, THEN conjunct2, THEN conjunct2, THEN conjunct2, THEN mp, OF hE]
  show ?thesis
    by (intro conjI c1 c2 c3 c4 c5)
qed


lemma rows_04_example:
  "collect_rows [observation ''Time'' ''c'' ''Feb-24'' ''3'', observation ''time'' ''a'' ''zzz'' ''1'',
                 observation ''Time'' ''b'' ''Dec-23'' ''2'']
   = Inr [\<lparr>period = JStr ''c'', period_label = JStr ''Feb-24'', obs_value = JStr ''3''\<rparr>,
          \<lparr>period = JStr ''a'', period_label = JStr ''zzz'', obs_value = JStr ''1''\<rparr>,
          \<lparr>period = JStr ''b'', period_label = JStr ''Dec-23'', obs_value = JStr ''2''\<rparr>]"
  by (simp add: observation_def time_dim_of_def)

lemma frame_04_example:
  "frame_04 ref_pandas
         [\<lparr>period = JStr ''c'', period_label = JStr ''Feb-24'', obs_value = JStr ''3''\<rparr>,
          \<lparr>period = JStr ''a'', period_label = JStr ''zzz'', obs_value = JStr ''1''\<rparr>,
          \<lparr>period = JStr ''b'', period_label = JStr ''Dec-23'', obs_value = JStr ''2''\<rparr>]
   = Inr [example_row ''b'' ''Dec-23'' 2, example_row ''c'' ''Feb-24'' 3, example_row ''a'' ''zzz'' 1]"
  by code_simp

lemma rows_03_example:
  "collect_rows [observation ''Time'' ''c'' ''2024'' ''3'', observation ''time'' ''a'' ''zzz'' ''1'',
                 observation ''Time'' ''b'' ''2023'' ''2'']
   = Inr [\<lparr>period = JStr ''c'', period_label = JStr ''2024'', obs_value = JStr ''3''\<rparr>,
          \<lparr>period = JStr ''a'', period_label = JStr ''zzz'', obs_value = JStr ''1''\<rparr>,
          \<lparr>period = JStr ''b'', period_label = JStr ''2023'', obs_value = JStr ''2''\<rparr>]"
  by (simp add: observation_def time_dim_of_def)

lemma frame_03_example:
  "frame_03 ref_pandas
         [\<lparr>period = JStr ''c'', period_label = JStr ''2024'', obs_value = JStr ''3''\<rparr>,
          \<lparr>period = JStr ''a'', period_label = JStr ''zzz'', obs_value = JStr ''1''\<rparr>,
          \<lparr>period = JStr ''b'', period_label = JStr ''2023'', obs_value = JStr ''2''\<rparr>]
   = Inr [example_row ''b'' ''2023'' 2, example_row ''c'' ''2024'' 3, example_row ''a'' ''zzz'' 1]"
  by code_simp

lemma zzz_no_date:
  "parse_period ref_pandas (JStr ''zzz'') = None \<and> coerce_mixed ref_pandas (JStr ''zzz'') = None"
  by code_simp

lemma ids_not_sorted: "\<not> sorted [''b'', ''c'', ''a'']"
  by simp

text \<open>
  Claim C2 as stated: no returned series is ordered by parsed dates for some items and
  by another rule for the others. In both scripts the rows \<open>b\<close> and \<open>c\<close> come out in
  the order of their dates and the row \<open>a\<close>, whose label \<open>zzz\<close> has no date, is put
  last as NaT; the result is not in the order of the period ids either.
\<close>

theorem observations_mixed_order:
  "fst (get_observations ref_pandas
          (const_net (observations_body
             [observation ''Time'' ''c'' ''Feb-24'' ''3'', observation ''time'' ''a'' ''zzz'' ''1'',
              observation ''Time'' ''b'' ''Dec-23'' ''2'']))
          ''V'' [(''time'', JStr ''*'')] world0)
     = Inr [example_row ''b'' ''Dec-23'' 2, example_row ''c'' ''Feb-24'' 3, example_row ''a'' ''zzz'' 1] \<and>
   fst (download_observations ref_pandas
          (const_net (observations_body
             [observation ''Time'' ''c'' ''2024'' ''3'', observation ''time'' ''a'' ''zzz'' ''1'',
              observation ''Time'' ''b'' ''2023'' ''2'']))
          ''V'' [(''time'', JStr ''*'')] world0)
     = Inr [example_row ''b'' ''2023'' 2, example_row ''c'' ''2024'' 3, example_row ''a'' ''zzz'' 1] \<and>
   parse_period ref_pandas (JStr ''zzz'') = None \<and>
   coerce_mixed ref_pandas (JStr ''zzz'') = None \<and>
   \<not> sorted [''b'', ''c'', ''a'']"
proof -
  have a: "fst (get_observations ref_pandas
          (const_net (observations_body
             [observation ''Time'' ''c'' ''Feb-24'' ''3'', observation ''time'' ''a'' ''zzz'' ''1'',
              observation ''Time'' ''b'' ''Dec-23'' ''2'']))
          ''V'' [(''time'', JStr ''*'')] world0)
     = Inr [example_row ''b'' ''Dec-23'' 2, example_row ''c'' ''Feb-24'' 3, example_row ''a'' ''zzz'' 1]"
    by (simp only: get_observations_rows [OF _ rows_04_example] const_net_def frame_04_example)
  have b: "fst (download_observations ref_pandas
          (const_net (observations_body
             [observation ''Time'' ''c'' ''2024'' ''3'', observation ''time'' ''a'' ''zzz'' ''1'',
              observation ''Time'' ''b'' ''2023'' ''2'']))
          ''V'' [(''time'', JStr ''*'')] world0)
     = Inr [example_row ''b'' ''2023'' 2, example_row ''c'' ''2024'' 3, example_row ''a'' ''zzz'' 1]"
    by (simp only: download_observations_rows [OF _ rows_03_example] const_net_def frame_03_example)
  show ?thesis
    by (intro conjI a b zzz_no_date [THEN conjunct1] zzz_no_date [THEN conjunct2] ids_not_sorted)
qed

section \<open>Properties of explore\_dimensions\<close>














end
